theory Spec2Isabelle
  imports Complex_Main "HOL-Library.AList" "HOL-Library.Log_Nat"
begin

section \<open>Strings\<close>

text \<open>
  A string is the list of its code units, and the type \<open>char\<close> holds the code units below
  256: the strings of the model are those of Basic Latin and Latin-1. On them

    \<^item> \<^verbatim>\<open>toLowerCase\<close> maps the letters A to Z and the 30 capital letters of Latin-1
      (U+00C0 to U+00DE without the sign U+00D7) to their small letters, 32 code units up;

    \<^item> \<^verbatim>\<open>toUpperCase\<close> maps the letters a to z and the 30 small letters U+00E0 to U+00FE
      (without the sign U+00F7) to their capital letters; the upper case of the three
      letters U+00DF, U+00B5 and U+00FF is not one code unit below 256, and the model
      leaves these three as they are;

    \<^item> the white space that \<^verbatim>\<open>trim\<close> removes is tab, line feed, vertical tab, form feed,
      carriage return, space and the no-break space U+00A0; the other white space of the
      language (U+FEFF, U+1680, U+2000 to U+200A, U+2028, U+2029, U+202F, U+205F, U+3000)
      lies above 255.
\<close>

definition latin1Capitals :: string where
  "latin1Capitals =
     [CHR 0xC0, CHR 0xC1, CHR 0xC2, CHR 0xC3, CHR 0xC4, CHR 0xC5, CHR 0xC6, CHR 0xC7,
      CHR 0xC8, CHR 0xC9, CHR 0xCA, CHR 0xCB, CHR 0xCC, CHR 0xCD, CHR 0xCE, CHR 0xCF,
      CHR 0xD0, CHR 0xD1, CHR 0xD2, CHR 0xD3, CHR 0xD4, CHR 0xD5, CHR 0xD6,
      CHR 0xD8, CHR 0xD9, CHR 0xDA, CHR 0xDB, CHR 0xDC, CHR 0xDD, CHR 0xDE]"

definition latin1Smalls :: string where
  "latin1Smalls =
     [CHR 0xE0, CHR 0xE1, CHR 0xE2, CHR 0xE3, CHR 0xE4, CHR 0xE5, CHR 0xE6, CHR 0xE7,
      CHR 0xE8, CHR 0xE9, CHR 0xEA, CHR 0xEB, CHR 0xEC, CHR 0xED, CHR 0xEE, CHR 0xEF,
      CHR 0xF0, CHR 0xF1, CHR 0xF2, CHR 0xF3, CHR 0xF4, CHR 0xF5, CHR 0xF6,
      CHR 0xF8, CHR 0xF9, CHR 0xFA, CHR 0xFB, CHR 0xFC, CHR 0xFD, CHR 0xFE]"

definition toLowerChar :: "char \<Rightarrow> char" where
  "toLowerChar c =
     (case map_of (zip ''ABCDEFGHIJKLMNOPQRSTUVWXYZ'' ''abcdefghijklmnopqrstuvwxyz'') c of
        Some d \<Rightarrow> d
      | None \<Rightarrow> (case map_of (zip latin1Capitals latin1Smalls) c of Some d \<Rightarrow> d | None \<Rightarrow> c))"

definition toUpperChar :: "char \<Rightarrow> char" where
  "toUpperChar c =
     (case map_of (zip ''abcdefghijklmnopqrstuvwxyz'' ''ABCDEFGHIJKLMNOPQRSTUVWXYZ'') c of
        Some d \<Rightarrow> d
      | None \<Rightarrow> (case map_of (zip latin1Smalls latin1Capitals) c of Some d \<Rightarrow> d | None \<Rightarrow> c))"

definition toLowerCase :: "string \<Rightarrow> string" where
  "toLowerCase s = map toLowerChar s"

definition toUpperCase :: "string \<Rightarrow> string" where
  "toUpperCase s = map toUpperChar s"

definition isSpace :: "char \<Rightarrow> bool" where
  "isSpace c = (c \<in> set [CHR 0x09, CHR 0x0A, CHR 0x0B, CHR 0x0C, CHR 0x0D, CHR '' '', CHR 0xA0])"

definition trim :: "string \<Rightarrow> string" where
  "trim s = rev (dropWhile isSpace (rev (dropWhile isSpace s)))"

definition isDigit :: "char \<Rightarrow> bool" where
  "isDigit c = (c \<in> set ''0123456789'')"

definition startsWith :: "string \<Rightarrow> string \<Rightarrow> bool" where
  "startsWith s p = (take (length p) s = p)"

text \<open>\<^verbatim>\<open>s.split(sep)\<close> for a one-character separator: always at least one piece.\<close>

fun split_on :: "char \<Rightarrow> string \<Rightarrow> string list" where
  "split_on sep [] = [[]]"
| "split_on sep (c # cs) =
     (if c = sep then [] # split_on sep cs
      else (case split_on sep cs of
              [] \<Rightarrow> [[c]]
            | p # ps \<Rightarrow> (c # p) # ps))"

section \<open>JavaScript values\<close>

text \<open>
  A number is a finite value or one of the three special values. Finite values are
  rationals and the arithmetic on them is exact: the rounding and overflow of double
  arithmetic are not modelled, except in \<^verbatim>\<open>percentile\<close>, where the rounding of the product
  decides the index.
\<close>

datatype jsnum = Fin rat | NaN | PosInf | NegInf

datatype jsval =
    JUndefined
  | JNull
  | JBool bool
  | JNum jsnum
  | JStr string
  | JArr "jsval list"
  | JObj "(string \<times> jsval) list"

fun truthy :: "jsval \<Rightarrow> bool" where
  "truthy JUndefined = False"
| "truthy JNull = False"
| "truthy (JBool b) = b"
| "truthy (JNum (Fin r)) = (r \<noteq> 0)"
| "truthy (JNum NaN) = False"
| "truthy (JNum PosInf) = True"
| "truthy (JNum NegInf) = True"
| "truthy (JStr s) = (s \<noteq> [])"
| "truthy (JArr xs) = True"
| "truthy (JObj kvs) = True"

text \<open>
  Reading a named property: \<^verbatim>\<open>v.k\<close> and \<^verbatim>\<open>v?.k\<close>. The names read by the code below
  (\<^verbatim>\<open>schema\<close>, \<^verbatim>\<open>batch\<close>, \<^verbatim>\<open>t\<close>, \<^verbatim>\<open>anon\<close>, ...) exist on plain objects only.
\<close>

fun jsget :: "jsval \<Rightarrow> string \<Rightarrow> jsval" where
  "jsget (JObj kvs) k = (case map_of kvs k of Some v \<Rightarrow> v | None \<Rightarrow> JUndefined)"
| "jsget v k = JUndefined"

definition objGet :: "(string \<times> jsval) list \<Rightarrow> string \<Rightarrow> jsval" where
  "objGet kvs k = (case map_of kvs k of Some v \<Rightarrow> v | None \<Rightarrow> JUndefined)"

definition objSet :: "(string \<times> jsval) list \<Rightarrow> string \<Rightarrow> jsval \<Rightarrow> (string \<times> jsval) list" where
  "objSet kvs k v = AList.update k v kvs"

text \<open>
  \<^verbatim>\<open>{ ...e }\<close>: the own properties of an object; a string or an array spreads to
  index keys only and any other primitive to nothing, so none of the named
  properties is present then.
\<close>

fun spread :: "jsval \<Rightarrow> (string \<times> jsval) list" where
  "spread (JObj kvs) = kvs"
| "spread v = []"

definition isString :: "jsval \<Rightarrow> bool" where
  "isString v = (case v of JStr s \<Rightarrow> True | _ \<Rightarrow> False)"

definition isNumber :: "jsval \<Rightarrow> bool" where
  "isNumber v = (case v of JNum n \<Rightarrow> True | _ \<Rightarrow> False)"

definition strLength :: "jsval \<Rightarrow> nat" where
  "strLength v = (case v of JStr s \<Rightarrow> length s | _ \<Rightarrow> 0)"

section \<open>validate.ts\<close>

definition EVENTS :: "string list" where
  "EVENTS =
     [''lifecycle.activate'', ''lifecycle.deactivate'', ''extension.upgraded'',
      ''java.run.started'', ''java.run.completed'', ''java.run.error'',
      ''feature.webview.open'', ''feature.theme.change'',
      ''feature.customCss.enable'', ''feature.customCss.disable'',
      ''settings.changed'', ''error.unhandled'', ''telemetry.optout'', ''telemetry.optin'',
      ''test.ping'', ''install.created'']"

text \<open>The regular expression \<^verbatim>\<open>/^[a-f0-9]{32}$/\<close>.\<close>

definition anonRe :: "string \<Rightarrow> bool" where
  "anonRe s = (length s = 32 \<and> list_all (\<lambda>c. c \<in> set ''abcdef0123456789'') s)"

definition anonOk :: "jsval \<Rightarrow> bool" where
  "anonOk v = (case v of JStr s \<Rightarrow> anonRe s | _ \<Rightarrow> False)"

definition evtOk :: "jsval \<Rightarrow> bool" where
  "evtOk v = (case v of JStr s \<Rightarrow> s \<in> set EVENTS | _ \<Rightarrow> False)"

text \<open>
  \<^verbatim>\<open>normalizeEvent\<close>. The conversion \<^verbatim>\<open>Number(s)\<close> of a string is the language's own and
  is a parameter \<open>N\<close>. \<open>None\<close> is the result \<^verbatim>\<open>null\<close>.
\<close>

definition coerceT :: "(string \<Rightarrow> jsnum) \<Rightarrow> (string \<times> jsval) list \<Rightarrow> (string \<times> jsval) list" where
  "coerceT N out =
     (case objGet out ''t'' of
        JStr s \<Rightarrow> objSet out ''t'' (JNum (N s))
      | _ \<Rightarrow> out)"

definition fillDefault :: "string \<Rightarrow> string \<Rightarrow> (string \<times> jsval) list \<Rightarrow> (string \<times> jsval) list" where
  "fillDefault k d out = (if \<not> isString (objGet out k) then objSet out k (JStr d) else out)"

definition normalizeEvent :: "(string \<Rightarrow> jsnum) \<Rightarrow> jsval \<Rightarrow> jsval option" where
  "normalizeEvent N e =
     (if \<not> truthy e then None
      else
        (let out0 = coerceT N (spread e) in
         case objGet out0 ''t'' of
           JNum (Fin r) \<Rightarrow>
             (let out1 = (if r < 10 ^ 12 then objSet out0 ''t'' (JNum (Fin (r * 1000))) else out0);
                  out2 = fillDefault ''ext'' ''0.0.0'' out1;
                  out3 = fillDefault ''vscode'' ''0.0.0'' out2;
                  out = fillDefault ''os'' ''unknown'' out3
              in if \<not> anonOk (objGet out ''anon'') then None
                 else if \<not> evtOk (objGet out ''evt'') then None
                 else if strLength (objGet out ''ext'') > 30
                       \<or> strLength (objGet out ''vscode'') > 30
                       \<or> strLength (objGet out ''os'') > 30 then None
                 else Some (JObj out))
         | _ \<Rightarrow> None))"

definition boundedStr :: "jsval \<Rightarrow> bool" where
  "boundedStr v = (case v of JStr s \<Rightarrow> \<not> length s > 30 | _ \<Rightarrow> False)"

definition validateEvent :: "jsval \<Rightarrow> bool" where
  "validateEvent e =
     (if \<not> truthy e \<or> \<not> isNumber (jsget e ''t'') then False
      else if \<not> anonOk (jsget e ''anon'') then False
      else if \<not> evtOk (jsget e ''evt'') then False
      else if \<not> boundedStr (jsget e ''ext'') then False
      else if \<not> boundedStr (jsget e ''vscode'') then False
      else if \<not> boundedStr (jsget e ''os'') then False
      else True)"

section \<open>server.ts: the client address\<close>

text \<open>
  A request header holds one string or a list of strings; header names are stored in
  lower case. \<open>None\<close> stands for \<^verbatim>\<open>undefined\<close>.
\<close>

datatype header = Single string | Multi "string list"

record request =
  headers :: "string \<Rightarrow> header option"
  ip :: "string option"
  body :: jsval

definition h :: "request \<Rightarrow> string \<Rightarrow> string option" where
  "h req name =
     (case headers req (toLowerCase name) of
        None \<Rightarrow> None
      | Some (Single v) \<Rightarrow> Some v
      | Some (Multi vs) \<Rightarrow> (case vs of [] \<Rightarrow> None | v # _ \<Rightarrow> Some v))"

text \<open>
  The alternative \<^verbatim>\<open>172\.(1[6-9]|2\d|3[0-1])\.\<close> of the regular expression, read on the
  text after \<^verbatim>\<open>172.\<close>.
\<close>

definition re172 :: "string \<Rightarrow> bool" where
  "re172 r =
     (case r of
        a # b # c # _ \<Rightarrow>
          c = CHR ''.'' \<and>
          ((a = CHR ''1'' \<and> b \<in> set ''6789'')
           \<or> (a = CHR ''2'' \<and> isDigit b)
           \<or> (a = CHR ''3'' \<and> b \<in> set ''01''))
      | _ \<Rightarrow> False)"

definition privateRe :: "string \<Rightarrow> bool" where
  "privateRe s =
     (startsWith s ''10.'' \<or> startsWith s ''127.'' \<or> startsWith s ''192.168.''
      \<or> (startsWith s ''172.'' \<and> re172 (drop 4 s))
      \<or> startsWith s ''::1'' \<or> startsWith s ''fc00:'' \<or> startsWith s ''fe80:''
      \<or> startsWith s ''fd00:'')"

definition isPrivate :: "string option \<Rightarrow> bool" where
  "isPrivate v = (case v of None \<Rightarrow> True | Some s \<Rightarrow> (if s = [] then True else privateRe s))"

definition parseForwardedFor :: "string option \<Rightarrow> string list" where
  "parseForwardedFor v =
     (case v of
        None \<Rightarrow> []
      | Some s \<Rightarrow> (if s = [] then [] else filter (\<lambda>x. x \<noteq> []) (map trim (split_on CHR '','' s))))"

text \<open>\<^verbatim>\<open>.filter(Boolean)\<close> on a list of strings that may be \<^verbatim>\<open>undefined\<close>.\<close>

definition filterBoolean :: "string option list \<Rightarrow> string list" where
  "filterBoolean cs =
     concat (map (\<lambda>c. case c of None \<Rightarrow> [] | Some s \<Rightarrow> (if s = [] then [] else [s])) cs)"

definition candidates :: "request \<Rightarrow> string list" where
  "candidates req =
     filterBoolean
       ([h req ''cf-connecting-ip'', h req ''x-client-ip'', h req ''x-real-ip'']
        @ map Some (parseForwardedFor (h req ''x-forwarded-for''))
        @ [ip req])"

definition pickClientIp :: "request \<Rightarrow> string option" where
  "pickClientIp req =
     (let chain = candidates req in
      case find (\<lambda>a. \<not> isPrivate (Some a)) chain of
        Some a \<Rightarrow> Some a
      | None \<Rightarrow> (case chain of a # _ \<Rightarrow> Some a | [] \<Rightarrow> ip req))"

text \<open>
  The address classes the specification names, read on the textual form of an address:
  RFC 1918 (10/8, 172.16/12, 192.168/16), loopback (127/8, ::1), link-local IPv4
  (169.254/16), link-local IPv6 (fe80::/10) and unique local IPv6 (fc00::/7).
\<close>

definition spec_private :: "string \<Rightarrow> bool" where
  "spec_private s =
     (startsWith s ''10.'' \<or> (startsWith s ''172.'' \<and> re172 (drop 4 s)) \<or> startsWith s ''192.168.''
      \<or> startsWith s ''127.'' \<or> s = ''::1''
      \<or> startsWith s ''169.254.''
      \<or> startsWith s ''fe8'' \<or> startsWith s ''fe9'' \<or> startsWith s ''fea'' \<or> startsWith s ''feb''
      \<or> startsWith s ''fc'' \<or> startsWith s ''fd'')"

definition spec_pickClientIp :: "request \<Rightarrow> string option" where
  "spec_pickClientIp req =
     (let chain = candidates req in
      case find (\<lambda>a. \<not> spec_private a) chain of
        Some a \<Rightarrow> Some a
      | None \<Rightarrow> (case chain of a # _ \<Rightarrow> Some a | [] \<Rightarrow> ip req))"

section \<open>server.ts and geo.ts: geography of a request\<close>

record geo =
  country :: string
  region :: string








section \<open>server.ts: the ingest route\<close>













text \<open>
  An event of a batch is skipped as invalid when normalisation returns \<^verbatim>\<open>null\<close> or the
  validation of the normalised event fails.
\<close>

definition invalidEvent :: "(string \<Rightarrow> jsnum) \<Rightarrow> jsval \<Rightarrow> bool" where
  "invalidEvent N x = (case normalizeEvent N x of None \<Rightarrow> True | Some ev \<Rightarrow> \<not> validateEvent ev)"


text \<open>
  What \<^verbatim>\<open>normalizeEvent\<close> asks of the timestamp and of the three bounded fields of its
  input: a finite number, or a string that converts to one; a field that is a string
  has at most 30 characters.
\<close>

definition finiteT :: "(string \<Rightarrow> jsnum) \<Rightarrow> jsval \<Rightarrow> bool" where
  "finiteT N v =
     (case v of
        JNum (Fin r) \<Rightarrow> True
      | JStr s \<Rightarrow> (case N s of Fin r \<Rightarrow> True | _ \<Rightarrow> False)
      | _ \<Rightarrow> False)"

definition fitsBound :: "jsval \<Rightarrow> bool" where
  "fitsBound v = (case v of JStr s \<Rightarrow> length s \<le> 30 | _ \<Rightarrow> True)"

definition normalizable :: "(string \<Rightarrow> jsnum) \<Rightarrow> jsval \<Rightarrow> bool" where
  "normalizable N e =
     (finiteT N (jsget e ''t'') \<and> anonOk (jsget e ''anon'') \<and> evtOk (jsget e ''evt'')
      \<and> fitsBound (jsget e ''ext'') \<and> fitsBound (jsget e ''vscode'') \<and> fitsBound (jsget e ''os''))"

subsection \<open>Concrete collaborators and inputs\<close>

text \<open>
  An instance of \<^verbatim>\<open>Number\<close> on strings: it reads unsigned decimal integers, the empty
  string as 0, and gives \<^verbatim>\<open>NaN\<close> for every other string.
\<close>

definition digitVal :: "char \<Rightarrow> int" where
  "digitVal c =
     (case map_of (zip ''0123456789'' [0, 1, 2, 3, 4, 5, 6, 7, 8, 9]) c of
        Some d \<Rightarrow> d | None \<Rightarrow> 0)"

definition digitsVal :: "string \<Rightarrow> int" where
  "digitsVal u = foldl (\<lambda>n c. 10 * n + digitVal c) 0 u"

definition decimalNumber :: "string \<Rightarrow> jsnum" where
  "decimalNumber s =
     (let u = trim s in
      if u = [] then Fin 0
      else if list_all isDigit u then Fin (of_int (digitsVal u))
      else NaN)"




definition sampleEvent :: "string \<Rightarrow> string \<Rightarrow> jsval" where
  "sampleEvent a v =
     JObj [(''anon'', JStr a), (''evt'', JStr v), (''t'', JNum (Fin 1700000000000))]"


definition goodAnon :: string where
  "goodAnon = ''0123456789abcdef0123456789abcdef''"


definition forwarded :: "string \<Rightarrow> string option \<Rightarrow> request" where
  "forwarded v peer =
     \<lparr>headers = [''x-forwarded-for'' \<mapsto> Single v], ip = peer, body = JNull\<rparr>"

section \<open>stats.js: statistics from the JSON log\<close>

definition CONTINENT :: "(string \<times> string) list" where
  "CONTINENT =
     [(''US'', ''NA''), (''CA'', ''NA''), (''MX'', ''NA''), (''BR'', ''SA''), (''AR'', ''SA''),
      (''CL'', ''SA''), (''CO'', ''SA''),
      (''GB'', ''EU''), (''DE'', ''EU''), (''FR'', ''EU''), (''ES'', ''EU''), (''IT'', ''EU''),
      (''NL'', ''EU''), (''SE'', ''EU''), (''PL'', ''EU''), (''IE'', ''EU''), (''PT'', ''EU''),
      (''CZ'', ''EU''), (''RO'', ''EU''), (''HU'', ''EU''),
      (''RU'', ''EU''), (''UA'', ''EU''), (''TR'', ''AS''),
      (''CN'', ''AS''), (''JP'', ''AS''), (''KR'', ''AS''), (''IN'', ''AS''), (''SG'', ''AS''),
      (''HK'', ''AS''), (''TW'', ''AS''), (''ID'', ''AS''), (''PH'', ''AS''), (''TH'', ''AS''),
      (''VN'', ''AS''), (''MY'', ''AS''), (''PK'', ''AS''), (''BD'', ''AS''),
      (''AU'', ''OC''), (''NZ'', ''OC''),
      (''ZA'', ''AF''), (''NG'', ''AF''), (''EG'', ''AF''), (''MA'', ''AF''), (''KE'', ''AF''),
      (''ET'', ''AF''), (''DZ'', ''AF''), (''GH'', ''AF''), (''TZ'', ''AF''), (''CI'', ''AF''),
      (''SN'', ''AF'')]"

text \<open>
  Double arithmetic. A finite double is a rational; the result of an operation is the
  exact result rounded to the nearest number with a significand of 53 bits, ties to the
  even significand. The exponent is not bounded: a result beyond the largest double is
  not replaced by infinity and a result below the smallest normal double keeps its 53
  bits. In \<^verbatim>\<open>percentile\<close> neither changes the index: it is clamped to the last position
  in the first case and to the first position in the second.
\<close>

definition pow2 :: "int \<Rightarrow> rat" where
  "pow2 k = (if 0 \<le> k then 2 ^ nat k else 1 / 2 ^ nat (- k))"

text \<open>The exponent \<open>k\<close> with \<open>2 ^ k \<le> x < 2 ^ (k + 1)\<close>, for a positive \<open>x\<close>.\<close>

definition binade :: "rat \<Rightarrow> int" where
  "binade x =
     (let (a, b) = quotient_of x;
          d = bitlen a - bitlen b
      in if pow2 d \<le> x then d else d - 1)"

definition roundHalfEven :: "rat \<Rightarrow> int" where
  "roundHalfEven q =
     (let f = \<lfloor>q\<rfloor>; r = q - of_int f
      in if r < 1 / 2 then f else if 1 / 2 < r then f + 1 else if even f then f else f + 1)"

definition roundPos :: "rat \<Rightarrow> rat" where
  "roundPos x = (let u = pow2 (binade x - 52) in of_int (roundHalfEven (x / u)) * u)"

definition roundDouble :: "rat \<Rightarrow> rat" where
  "roundDouble x = (if x = 0 then 0 else if 0 < x then roundPos x else - roundPos (- x))"

text \<open>
  \<^verbatim>\<open>percentile(sorted, p)\<close>, for a percentile \<open>p\<close> that is a double: the quotient
  \<^verbatim>\<open>p / 100\<close> and the product with \<^verbatim>\<open>sorted.length\<close> are each rounded to a double.
\<close>

definition percentile :: "rat list \<Rightarrow> rat \<Rightarrow> rat" where
  "percentile srt p =
     (if length srt = 0 then 0
      else (let idx = \<lceil>roundDouble (roundDouble (p / 100) * of_nat (length srt))\<rceil> - 1
            in srt ! nat (max 0 (min (int (length srt) - 1) idx))))"

text \<open>The nearest rank of the specification, with the product computed exactly.\<close>

definition spec_rank :: "nat \<Rightarrow> rat \<Rightarrow> int" where
  "spec_rank n p = \<lceil>(p / 100) * of_nat n\<rceil> - 1"

definition sample25 :: "rat list" where
  "sample25 = [1, 2, 3, 4, 5, 6, 7, 8, 9, 10, 11, 12, 13, 14, 15, 16, 17, 18, 19, 20, 21, 22, 23, 24, 25]"

text \<open>An index clamped to the positions \<open>0 .. n - 1\<close> of a sample of size \<open>n\<close>.\<close>

definition clampIndex :: "nat \<Rightarrow> int \<Rightarrow> nat" where
  "clampIndex n i = nat (max 0 (min (int n - 1) i))"

text \<open>
  A line of the JSON log, as \<^verbatim>\<open>appendJsonEvent\<close> writes it for a validated event: the
  string fields are strings (the empty string also stands for an absent field, both are
  falsy), the timestamp is a finite number or is absent (\<open>None\<close>; an infinite value is
  written as \<^verbatim>\<open>null\<close>), and the metadata \<^verbatim>\<open>m.durationMs\<close> is a number or absent. The event
  name is one of \<open>EVENTS\<close>, or at least an ordinary property name. The fields read only
  by the accumulators that are left out below (\<^verbatim>\<open>os\<close>, \<^verbatim>\<open>ext\<close>, \<^verbatim>\<open>vscode\<close> and the rest of
  the metadata) are not part of the record.
\<close>

record jevent =
  ev_evt :: string
  ev_t :: "rat option"
  ev_anon :: string
  ev_country :: string
  ev_durationMs :: "rat option"
  ev_phase :: string

record tally =
  hits :: nat
  visitors :: nat

text \<open>
  The accumulators of one call, and its result. \<open>None\<close> as an hour or a day of the
  week is \<^verbatim>\<open>NaN\<close>, read from an invalid date. The accumulators \<^verbatim>\<open>byOs\<close>, \<^verbatim>\<open>byExt\<close>,
  \<^verbatim>\<open>byVscode\<close>, \<^verbatim>\<open>dailyOsSeries\<close>, \<^verbatim>\<open>waitMsSum\<close>, \<^verbatim>\<open>interactive\<close>, \<^verbatim>\<open>truncations\<close>,
  \<^verbatim>\<open>exitCodes\<close>, \<^verbatim>\<open>outputBuckets\<close> and \<^verbatim>\<open>topExceptions\<close>, and the result fields computed from
  them, are left out: each is written by its own statement of the loop and read by no
  statement that writes one of the accumulators kept here.
\<close>

record acc =
  a_total :: nat
  a_byEvent :: "(string \<times> nat) list"
  a_hourly :: "nat list"
  a_dow :: "nat list"
  a_dayHits :: "nat list"
  a_dayUniques :: "string set list"
  a_globalUniques :: "string set"
  a_byCountry :: "(string \<times> tally) list"
  a_byContinent :: "(string \<times> tally) list"
  a_seenHourAnon :: "nat option \<Rightarrow> string set"
  a_hourlyVisitors :: "nat list"
  a_started :: nat
  a_completed :: nat
  a_compileErr :: nat
  a_runtimeErr :: nat
  a_durations :: "rat list"

record stats =
  total :: nat
  uniques :: nat
  daily_hits :: "nat list"
  daily_uniques :: "nat list"
  byEvent :: "(string \<times> nat) list"
  hourly :: "nat list"
  dow :: "nat list"
  runs_started :: nat
  runs_completed :: nat
  errors_compile :: nat
  errors_runtime :: nat
  compileRate :: rat
  runtimeRate :: rat
  durations_count :: nat
  median :: rat
  p90 :: rat
  hist_values :: "nat list"
  byContinent :: "(string \<times> tally) list"
  byCountry :: "(string \<times> tally) list"
  hourlyVisitors :: "nat list"

text \<open>\<^verbatim>\<open>obj[k] = (obj[k] || 0) + 1\<close> on an object that keeps its keys in insertion order.\<close>

fun bump :: "string \<Rightarrow> (string \<times> nat) list \<Rightarrow> (string \<times> nat) list" where
  "bump k [] = [(k, 1)]"
| "bump k ((k', n) # r) = (if k = k' then (k', n + 1) # r else (k', n) # bump k r)"

text \<open>\<^verbatim>\<open>obj[k] = obj[k] || { hits: 0, visitors: 0 }\<close> followed by an update of the entry.\<close>

fun upd :: "string \<Rightarrow> (tally \<Rightarrow> tally) \<Rightarrow> (string \<times> tally) list \<Rightarrow> (string \<times> tally) list" where
  "upd k f [] = [(k, f \<lparr>hits = 0, visitors = 0\<rparr>)]"
| "upd k f ((k', v) # r) = (if k = k' then (k', f v) # r else (k', v) # upd k f r)"

text \<open>\<^verbatim>\<open>arr[i]++\<close> on an array of counters: an index that is \<^verbatim>\<open>NaN\<close> sets a property named
  \<^verbatim>\<open>NaN\<close> and leaves every element as it was.\<close>

definition incrAt :: "nat option \<Rightarrow> nat list \<Rightarrow> nat list" where
  "incrAt i xs =
     (case i of
        Some j \<Rightarrow> (if j < length xs then xs[j := xs ! j + 1] else xs)
      | None \<Rightarrow> xs)"

text \<open>
  The date of an event. \<^verbatim>\<open>ts\<close> is the number \<^verbatim>\<open>e.t\<close>, or \<^verbatim>\<open>NaN\<close> when there is none;
  a non-zero value below \<^verbatim>\<open>1e12\<close> is scaled to milliseconds; \<^verbatim>\<open>new Date(ts || Date.now())\<close>
  is invalid beyond \<^verbatim>\<open>8.64e15\<close> milliseconds either side of the epoch and otherwise
  holds the value truncated to an integer.
\<close>

definition scaleTs :: "rat option \<Rightarrow> rat option" where
  "scaleTs ts = (case ts of Some r \<Rightarrow> (if r \<noteq> 0 \<and> r < 10 ^ 12 then Some (r * 1000) else Some r) | None \<Rightarrow> None)"

definition truncRat :: "rat \<Rightarrow> int" where
  "truncRat x = (if 0 \<le> x then \<lfloor>x\<rfloor> else \<lceil>x\<rceil>)"

definition newDate :: "rat \<Rightarrow> int option" where
  "newDate x = (if \<bar>x\<bar> > 8640000000000000 then None else Some (truncRat x))"

definition eventDate :: "int \<Rightarrow> rat option \<Rightarrow> int option" where
  "eventDate now ts =
     (case scaleTs ts of
        Some r \<Rightarrow> (if r \<noteq> 0 then newDate r else newDate (of_int now))
      | None \<Rightarrow> newDate (of_int now))"

definition getUTCHours :: "int option \<Rightarrow> nat option" where
  "getUTCHours d = map_option (\<lambda>ms. nat ((ms div 3600000) mod 24)) d"

definition getUTCDay :: "int option \<Rightarrow> nat option" where
  "getUTCDay d = map_option (\<lambda>ms. nat ((ms div 86400000 + 4) mod 7)) d"

definition orDefault :: "string \<Rightarrow> string \<Rightarrow> string" where
  "orDefault s d = (if s = [] then d else s)"

definition continentOfCountry :: "string \<Rightarrow> string" where
  "continentOfCountry c = (case map_of CONTINENT c of Some k \<Rightarrow> (if k = [] then ''UN'' else k) | None \<Rightarrow> ''UN'')"

text \<open>
  The sets of visitors seen per country and per continent are properties of the
  process-wide object \<^verbatim>\<open>global\<close>, under the keys \<^verbatim>\<open>c:\<close>\<open>country\<close> and \<^verbatim>\<open>t:\<close>\<open>continent\<close>;
  a key never written holds no visitor.
\<close>

type_synonym global = "string \<Rightarrow> string set"

definition countVisitor :: "string \<Rightarrow> string \<Rightarrow> string \<Rightarrow> global \<times> (string \<times> tally) list
    \<Rightarrow> global \<times> (string \<times> tally) list" where
  "countVisitor key k a = (\<lambda>(G, tab).
     if a \<notin> G key then (G(key := insert a (G key)), upd k (\<lambda>v. v\<lparr>visitors := visitors v + 1\<rparr>) tab)
     else (G, tab))"

definition step :: "int \<Rightarrow> nat \<Rightarrow> global \<times> acc \<Rightarrow> jevent \<Rightarrow> global \<times> acc" where
  "step now di = (\<lambda>(G, A) e.
     let evt = orDefault (ev_evt e) ''unknown'';
         dt = eventDate now (ev_t e);
         hr = getUTCHours dt;
         dwi = getUTCDay dt;
         anon = ev_anon e;
         country = toUpperCase (orDefault (ev_country e) ''-'');
         cont = continentOfCountry country;
         byC = upd country (\<lambda>v. v\<lparr>hits := hits v + 1\<rparr>) (a_byCountry A);
         byT = upd cont (\<lambda>v. v\<lparr>hits := hits v + 1\<rparr>) (a_byContinent A);
         (G1, byC1) = (if anon \<noteq> [] then countVisitor (''c:'' @ country) country anon (G, byC) else (G, byC));
         (G2, byT1) = (if anon \<noteq> [] then countVisitor (''t:'' @ cont) cont anon (G1, byT) else (G1, byT));
         sh = a_seenHourAnon A hr;
         newInHour = (anon \<noteq> [] \<and> anon \<notin> sh);
         completed = (evt = ''java.run.completed'');
         dur = (case ev_durationMs e of Some r \<Rightarrow> r | None \<Rightarrow> 0);
         isErr = (evt = ''java.run.error'');
         phase = orDefault (ev_phase e) ''runtime''
     in (G2,
         A\<lparr>a_total := a_total A + 1,
           a_hourly := incrAt hr (a_hourly A),
           a_dow := incrAt dwi (a_dow A),
           a_byEvent := bump evt (a_byEvent A),
           a_dayUniques := (if anon \<noteq> [] then (a_dayUniques A)[di := insert anon (a_dayUniques A ! di)]
                            else a_dayUniques A),
           a_globalUniques := (if anon \<noteq> [] then insert anon (a_globalUniques A) else a_globalUniques A),
           a_dayHits := incrAt (Some di) (a_dayHits A),
           a_byCountry := byC1,
           a_byContinent := byT1,
           a_seenHourAnon := (if newInHour then (a_seenHourAnon A)(hr := insert anon sh) else a_seenHourAnon A),
           a_hourlyVisitors := (if newInHour then incrAt hr (a_hourlyVisitors A) else a_hourlyVisitors A),
           a_started := (if evt = ''java.run.started'' then a_started A + 1 else a_started A),
           a_completed := (if completed then a_completed A + 1 else a_completed A),
           a_durations := (if completed \<and> dur > 0 then a_durations A @ [dur] else a_durations A),
           a_compileErr := (if isErr \<and> phase = ''compile'' then a_compileErr A + 1 else a_compileErr A),
           a_runtimeErr := (if isErr \<and> phase \<noteq> ''compile'' then a_runtimeErr A + 1 else a_runtimeErr A)\<rparr>))"

text \<open>The outer loop over the days of the window; \<open>di\<close> is the index of the day.\<close>

fun scanDays :: "int \<Rightarrow> nat \<Rightarrow> global \<times> acc \<Rightarrow> jevent list list \<Rightarrow> global \<times> acc" where
  "scanDays now di s [] = s"
| "scanDays now di s (arr # rest) = scanDays now (di + 1) (foldl (step now di) s arr) rest"

definition initAcc :: "nat \<Rightarrow> acc" where
  "initAcc n =
     \<lparr>a_total = 0, a_byEvent = [], a_hourly = replicate 24 0, a_dow = replicate 7 0,
      a_dayHits = replicate n 0, a_dayUniques = replicate n {}, a_globalUniques = {},
      a_byCountry = [], a_byContinent = [], a_seenHourAnon = (\<lambda>hr. {}),
      a_hourlyVisitors = replicate 24 0, a_started = 0, a_completed = 0,
      a_compileErr = 0, a_runtimeErr = 0, a_durations = []\<rparr>"

definition histEdges :: "rat list" where
  "histEdges = [0, 500, 1000, 3000, 10000, 30000, 60000, 120000]"

definition histIndex :: "rat \<Rightarrow> nat" where
  "histIndex d =
     (case find (\<lambda>i. i < length histEdges - 1 \<and> d \<ge> histEdges ! i \<and> d < histEdges ! (i + 1))
             [0, 1, 2, 3, 4, 5, 6, 7] of
        Some i \<Rightarrow> i
      | None \<Rightarrow> length histEdges - 1)"

definition histogram :: "rat list \<Rightarrow> nat list" where
  "histogram ds = foldl (\<lambda>hv d. incrAt (Some (histIndex d)) hv) (replicate (length histEdges) 0) ds"

text \<open>
  \<^verbatim>\<open>readWindowStats\<close>. The files of the window are given as one list of events per day,
  oldest day first; the call takes the \<^verbatim>\<open>global\<close> object and returns it with the result.
\<close>

definition readWindowStats :: "global \<Rightarrow> int \<Rightarrow> jevent list list \<Rightarrow> global \<times> stats" where
  "readWindowStats G now files =
     (let (G', A) = scanDays now 0 (G, initAcc (length files)) files;
          durations = sort (a_durations A);
          compRateDen = max 1 (a_started A)
      in (G',
          \<lparr>total = a_total A,
           uniques = card (a_globalUniques A),
           daily_hits = a_dayHits A,
           daily_uniques = map card (a_dayUniques A),
           byEvent = a_byEvent A,
           hourly = a_hourly A,
           dow = a_dow A,
           runs_started = a_started A,
           runs_completed = a_completed A,
           errors_compile = a_compileErr A,
           errors_runtime = a_runtimeErr A,
           compileRate = of_nat (a_compileErr A) / of_nat compRateDen,
           runtimeRate = of_nat (a_runtimeErr A) / of_nat compRateDen,
           durations_count = length durations,
           median = percentile durations 50,
           p90 = percentile durations 90,
           hist_values = histogram durations,
           byContinent = a_byContinent A,
           byCountry = a_byCountry A,
           hourlyVisitors = a_hourlyVisitors A\<rparr>))"

subsection \<open>Kinds of logged events, and concrete inputs\<close>

definition isStarted :: "jevent \<Rightarrow> bool" where
  "isStarted e = (ev_evt e = ''java.run.started'')"

definition isCompleted :: "jevent \<Rightarrow> bool" where
  "isCompleted e = (ev_evt e = ''java.run.completed'')"

definition isCompileError :: "jevent \<Rightarrow> bool" where
  "isCompileError e = (ev_evt e = ''java.run.error'' \<and> ev_phase e = ''compile'')"

definition isRuntimeError :: "jevent \<Rightarrow> bool" where
  "isRuntimeError e = (ev_evt e = ''java.run.error'' \<and> ev_phase e \<noteq> ''compile'')"

text \<open>A completed run with a duration that is not null, and one with a positive duration.\<close>

definition hasDuration :: "jevent \<Rightarrow> bool" where
  "hasDuration e = (isCompleted e \<and> ev_durationMs e \<noteq> None)"

definition hasPositiveDuration :: "jevent \<Rightarrow> bool" where
  "hasPositiveDuration e =
     (isCompleted e \<and> (case ev_durationMs e of Some r \<Rightarrow> r > 0 | None \<Rightarrow> False))"

definition hasValidDate :: "int \<Rightarrow> jevent \<Rightarrow> bool" where
  "hasValidDate now e = (eventDate now (ev_t e) \<noteq> None)"

definition emptyGlobal :: global where
  "emptyGlobal = (\<lambda>k. {})"

definition logged :: "string \<Rightarrow> rat option \<Rightarrow> string \<Rightarrow> string \<Rightarrow> rat option \<Rightarrow> jevent" where
  "logged v ts a c dur =
     \<lparr>ev_evt = v, ev_t = ts, ev_anon = a, ev_country = c, ev_durationMs = dur, ev_phase = []\<rparr>"

section \<open>db.ts and db.js: statistics from the table of events\<close>

text \<open>
  A row of \<^verbatim>\<open>telemetry_events\<close>, with the columns the queries below read. The timestamp
  is in milliseconds since the epoch; \<open>None\<close> is SQL \<^verbatim>\<open>NULL\<close>. \<open>col_m_phase\<close> and
  \<open>col_m_durationMs\<close> are the values \<^verbatim>\<open>m->>'phase'\<close> and \<^verbatim>\<open>(m->>'durationMs')::bigint\<close> of the
  JSON column; the rows of the model are those on which the cast succeeds.
\<close>

record row =
  col_t :: int
  col_anon :: string
  col_evt :: string
  col_error_phase :: "string option"
  col_m_phase :: "string option"
  col_duration_ms :: "int option"
  col_m_durationMs :: "int option"

definition coalesce :: "'a option \<Rightarrow> 'a option \<Rightarrow> 'a option" where
  "coalesce a b = (case a of Some x \<Rightarrow> Some x | None \<Rightarrow> b)"

text \<open>
  The window of \<^verbatim>\<open>dbReadStats(windowDays, fromS, toS)\<close> of db.js. \<open>parse s\<close> is the time value of
  \<^verbatim>\<open>new Date(s)\<close>, \<open>None\<close> when it is \<^verbatim>\<open>NaN\<close>; the parser is the language's own and is a
  parameter. \<open>now\<close> is the time of the call.
\<close>

definition resolveWindow :: "(string \<Rightarrow> int option) \<Rightarrow> int \<Rightarrow> string option \<Rightarrow> string option \<Rightarrow> int \<times> int" where
  "resolveWindow parse now fromS toS =
     (case (fromS, toS) of
        (Some f, Some t) \<Rightarrow>
          (if f \<noteq> [] \<and> t \<noteq> [] then
             (case (parse (f @ ''T00:00:00Z''), parse (t @ ''T23:59:59Z'')) of
                (Some ft, Some tt) \<Rightarrow> (if ft \<le> tt then (ft, tt) else (0, now))
              | _ \<Rightarrow> (0, now))
           else (0, now))
      | _ \<Rightarrow> (0, now))"

text \<open>
  The window of the older \<^verbatim>\<open>dbReadStats(windowDays)\<close> of db.ts, which takes no dates: the
  \<open>windowDays - 1\<close> days before the call.
\<close>

definition trailingWindow :: "int \<Rightarrow> int \<Rightarrow> int \<times> int" where
  "trailingWindow now windowDays = (now - (windowDays - 1) * 86400000, now)"

text \<open>The condition \<^verbatim>\<open>t >= $1 and t < $2\<close> of every windowed query.\<close>

definition inWindow :: "int \<times> int \<Rightarrow> row \<Rightarrow> bool" where
  "inWindow w r = (fst w \<le> col_t r \<and> col_t r < snd w)"

definition rowPhase :: "row \<Rightarrow> string option" where
  "rowPhase r = coalesce (col_error_phase r) (col_m_phase r)"

definition rowDur :: "row \<Rightarrow> int option" where
  "rowDur r = coalesce (col_duration_ms r) (col_m_durationMs r)"

definition durIn :: "int \<Rightarrow> int option \<Rightarrow> row \<Rightarrow> bool" where
  "durIn lo hi r =
     (case rowDur r of
        None \<Rightarrow> False
      | Some d \<Rightarrow> (case hi of Some u \<Rightarrow> lo \<le> d \<and> d < u | None \<Rightarrow> lo \<le> d))"

record dbstats =
  db_windowDays :: int
  db_total :: nat
  db_uniques :: nat
  db_started :: nat
  db_completed :: nat
  db_compile :: nat
  db_runtime :: nat
  db_compileRate :: rat
  db_runtimeRate :: rat
  db_durations_count :: nat
  db_hist_values :: "nat list"

definition countWhere :: "('a \<Rightarrow> bool) \<Rightarrow> 'a list \<Rightarrow> nat" where
  "countWhere P rs = length (filter P rs)"

text \<open>
  The queries that db.ts and db.js share, on the window \<open>w\<close>, and the result assembled
  from their rows. Of the result the fields of \<open>dbstats\<close> are kept; the grouped counts,
  the daily and hourly series, the exit codes, the geography and the tables are left out.
  These queries use counts, sums and comparisons only, and the database is taken to
  answer each of them.
\<close>

definition aggregate :: "int \<Rightarrow> int \<times> int \<Rightarrow> row list \<Rightarrow> dbstats" where
  "aggregate windowDays w rows =
     (let sel = filter (inWindow w) rows;
          started = countWhere (\<lambda>r. col_evt r = ''java.run.started'') sel;
          completedRows = filter (\<lambda>r. col_evt r = ''java.run.completed'') sel;
          errorRows = filter (\<lambda>r. col_evt r = ''java.run.error'') sel;
          compileErr = countWhere (\<lambda>r. rowPhase r = Some ''compile'') errorRows;
          runtimeErr = countWhere (\<lambda>r. case rowPhase r of Some p \<Rightarrow> p \<noteq> ''compile'' | None \<Rightarrow> False) errorRows
      in \<lparr>db_windowDays = windowDays,
          db_total = length sel,
          db_uniques = card (set (map col_anon sel)),
          db_started = started,
          db_completed = length completedRows,
          db_compile = compileErr,
          db_runtime = runtimeErr,
          db_compileRate = (if started \<noteq> 0 then of_nat compileErr / of_nat started else 0),
          db_runtimeRate = (if started \<noteq> 0 then of_nat runtimeErr / of_nat started else 0),
          db_durations_count = countWhere (\<lambda>r. rowDur r \<noteq> None) completedRows,
          db_hist_values =
            [countWhere (durIn 0 (Some 500)) completedRows,
             countWhere (durIn 500 (Some 1000)) completedRows,
             countWhere (durIn 1000 (Some 3000)) completedRows,
             countWhere (durIn 3000 (Some 10000)) completedRows,
             countWhere (durIn 10000 (Some 30000)) completedRows,
             countWhere (durIn 30000 (Some 60000)) completedRows,
             countWhere (durIn 60000 (Some 120000)) completedRows,
             countWhere (durIn 120000 None) completedRows]\<rparr>)"

text \<open>
  The result of \<^verbatim>\<open>dbReadStats\<close>: it throws, or it returns \<^verbatim>\<open>null\<close> when no database is
  configured, or it returns the statistics.
\<close>

datatype dbresult = Throws | NoDatabase | Stats dbstats

text \<open>\<^verbatim>\<open>dbReadStats(windowDays)\<close> of db.ts: the queries above on the trailing window.\<close>

definition dbReadStatsTs :: "bool \<Rightarrow> row list \<Rightarrow> int \<Rightarrow> int \<Rightarrow> dbresult" where
  "dbReadStatsTs enabled rows now windowDays =
     (if \<not> enabled then NoDatabase
      else Stats (aggregate windowDays (trailingWindow now windowDays) rows))"

text \<open>
  \<^verbatim>\<open>dbReadStats(windowDays, fromS, toS)\<close> of db.js. Besides the queries above it runs the
  query of the recent sessions, which groups the rows of the window by session and
  takes \<^verbatim>\<open>max(coalesce(scanner_usage, ...))\<close> of a boolean and \<^verbatim>\<open>any_value(anon)\<close>. The
  answer of the database to that query is the parameter \<open>sessions\<close>: \<open>None\<close> when the
  database refuses the query, and then the function throws. The rows of the answer go
  to \<^verbatim>\<open>sessionsRecent\<close>, which is not among the fields kept.
\<close>

definition dbReadStats :: "bool \<Rightarrow> (string \<Rightarrow> int option) \<Rightarrow> (int \<times> int \<Rightarrow> row list \<Rightarrow> 's option)
    \<Rightarrow> row list \<Rightarrow> int \<Rightarrow> int \<Rightarrow> string option \<Rightarrow> string option \<Rightarrow> dbresult" where
  "dbReadStats enabled parse sessions rows now windowDays fromS toS =
     (if \<not> enabled then NoDatabase
      else
        (let w = resolveWindow parse now fromS toS in
         case sessions w rows of
           None \<Rightarrow> Throws
         | Some recent \<Rightarrow> Stats (aggregate windowDays w rows)))"

text \<open>
  PostgreSQL has no aggregate \<^verbatim>\<open>max\<close> on the type boolean: it refuses the query of the recent
  sessions (function max(boolean) does not exist), whatever the rows and the window.
\<close>

definition postgres :: "int \<times> int \<Rightarrow> row list \<Rightarrow> unit option" where
  "postgres w rows = None"

text \<open>
  The route \<^verbatim>\<open>GET /stats\<close> of dist/server.js: without a database it answers 503; it
  answers 204 when \<^verbatim>\<open>dbReadStats\<close> returns \<^verbatim>\<open>null\<close>; when \<^verbatim>\<open>dbReadStats\<close> throws it answers
  the zero-valued result, whose histogram has no values.
\<close>

datatype statsReply = Unavailable | NoContent | Body dbstats

definition fallback :: "int \<Rightarrow> dbstats" where
  "fallback windowDays =
     \<lparr>db_windowDays = windowDays, db_total = 0, db_uniques = 0, db_started = 0, db_completed = 0,
      db_compile = 0, db_runtime = 0, db_compileRate = 0, db_runtimeRate = 0,
      db_durations_count = 0, db_hist_values = []\<rparr>"

definition statsRoute :: "bool \<Rightarrow> (string \<Rightarrow> int option) \<Rightarrow> (int \<times> int \<Rightarrow> row list \<Rightarrow> 's option)
    \<Rightarrow> row list \<Rightarrow> int \<Rightarrow> int \<Rightarrow> string option \<Rightarrow> string option \<Rightarrow> statsReply" where
  "statsRoute enabled parse sessions rows now windowDays fromS toS =
     (if \<not> enabled then Unavailable
      else (case dbReadStats enabled parse sessions rows now windowDays fromS toS of
              Stats data \<Rightarrow> Body data
            | NoDatabase \<Rightarrow> NoContent
            | Throws \<Rightarrow> Body (fallback windowDays)))"


text \<open>The rate of claim C7: the errors over the started runs, the divisor at least 1.\<close>

definition spec_rate :: "nat \<Rightarrow> nat \<Rightarrow> rat" where
  "spec_rate errors started = of_nat errors / of_nat (max 1 started)"

subsection \<open>Kinds of rows, and concrete inputs\<close>

definition rowStarted :: "row \<Rightarrow> bool" where
  "rowStarted r = (col_evt r = ''java.run.started'')"

definition rowCompileError :: "row \<Rightarrow> bool" where
  "rowCompileError r = (col_evt r = ''java.run.error'' \<and> rowPhase r = Some ''compile'')"

definition rowRuntimeError :: "row \<Rightarrow> bool" where
  "rowRuntimeError r =
     (col_evt r = ''java.run.error'' \<and> (case rowPhase r of Some p \<Rightarrow> p \<noteq> ''compile'' | None \<Rightarrow> False))"

text \<open>A completed run with a duration that is not null, and one whose duration is not
  negative.\<close>

definition rowHasDuration :: "row \<Rightarrow> bool" where
  "rowHasDuration r = (col_evt r = ''java.run.completed'' \<and> rowDur r \<noteq> None)"

definition rowNonNegativeDuration :: "row \<Rightarrow> bool" where
  "rowNonNegativeDuration r =
     (col_evt r = ''java.run.completed'' \<and> (case rowDur r of Some d \<Rightarrow> 0 \<le> d | None \<Rightarrow> False))"

text \<open>
  An instance of the date parser on the form \<^verbatim>\<open>YYYY-MM-DDTHH:MM:SSZ\<close> with a valid
  calendar date and time of day: the milliseconds from the epoch to that instant, by
  the civil-calendar day count. Every other string is \<^verbatim>\<open>NaN\<close> in this instance.
\<close>

definition daysFromCivil :: "int \<Rightarrow> int \<Rightarrow> int \<Rightarrow> int" where
  "daysFromCivil y mo d =
     (let y' = (if mo \<le> 2 then y - 1 else y);
          era = y' div 400;
          yoe = y' - era * 400;
          doy = (153 * (if mo > 2 then mo - 3 else mo + 9) + 2) div 5 + d - 1;
          doe = yoe * 365 + yoe div 4 - yoe div 100 + doy
      in era * 146097 + doe - 719468)"

definition daysInMonth :: "int \<Rightarrow> int \<Rightarrow> int" where
  "daysInMonth y mo =
     (if mo = 2 then (if y mod 4 = 0 \<and> (y mod 100 \<noteq> 0 \<or> y mod 400 = 0) then 29 else 28)
      else if mo = 4 \<or> mo = 6 \<or> mo = 9 \<or> mo = 11 then 30 else 31)"

definition parseIsoUtc :: "string \<Rightarrow> int option" where
  "parseIsoUtc s =
     (if length s = 20
         \<and> list_all isDigit (take 4 s @ take 2 (drop 5 s) @ take 2 (drop 8 s)
                               @ take 2 (drop 11 s) @ take 2 (drop 14 s) @ take 2 (drop 17 s))
         \<and> [s ! 4, s ! 7, s ! 10, s ! 13, s ! 16, s ! 19] = ''--T::Z''
      then
        (let y = digitsVal (take 4 s); mo = digitsVal (take 2 (drop 5 s)); d = digitsVal (take 2 (drop 8 s));
             hh = digitsVal (take 2 (drop 11 s)); mi = digitsVal (take 2 (drop 14 s)); ss = digitsVal (take 2 (drop 17 s))
         in if 1 \<le> mo \<and> mo \<le> 12 \<and> 1 \<le> d \<and> d \<le> daysInMonth y mo \<and> hh < 24 \<and> mi < 60 \<and> ss < 60
            then Some (daysFromCivil y mo d * 86400000 + hh * 3600000 + mi * 60000 + ss * 1000)
            else None)
      else None)"

definition mkRow :: "int \<Rightarrow> string \<Rightarrow> string \<Rightarrow> row" where
  "mkRow ts a v =
     \<lparr>col_t = ts, col_anon = a, col_evt = v, col_error_phase = None, col_m_phase = None,
      col_duration_ms = None, col_m_durationMs = None\<rparr>"

section \<open>Properties of the percentile\<close>

lemma clampIndex_less: "0 < n \<Longrightarrow> clampIndex n i < n"
  by (simp add: clampIndex_def)

lemma percentile_examples:
  "percentile [10, 20, 30, 40, 50] 50 = 30"
  "percentile [10, 20, 30, 40, 50] 90 = 50"
  by code_simp+

text \<open>
  Claim C9, as amended. On a non-empty sample \<open>xs\<close> of size \<open>n\<close> the percentile is the
  element at the index \<open>ceil x - 1\<close> clamped to \<open>0 .. n - 1\<close>, where \<open>x\<close> is the product
  \<open>(p / 100) * n\<close> as double arithmetic computes it; so it is an element of the sample.
  For the sample 10, 20, 30, 40, 50 the median is 30 and the 90th percentile is 50.
\<close>

theorem percentile_nearest_rank:
  assumes "0 < length xs"
  shows "percentile xs p
           = xs ! clampIndex (length xs) (\<lceil>roundDouble (roundDouble (p / 100) * of_nat (length xs))\<rceil> - 1)
       \<and> percentile xs p \<in> set xs
       \<and> percentile [10, 20, 30, 40, 50] 50 = 30
       \<and> percentile [10, 20, 30, 40, 50] 90 = 50"
proof -
  have a: "percentile xs p
           = xs ! clampIndex (length xs) (\<lceil>roundDouble (roundDouble (p / 100) * of_nat (length xs))\<rceil> - 1)"
    using assms by (simp add: percentile_def clampIndex_def Let_def)
  have b: "percentile xs p \<in> set xs"
    unfolding a using clampIndex_less[OF assms] by simp
  from a b percentile_examples show ?thesis by blast
qed

lemma rank_examples:
  "clampIndex 5 (\<lceil>roundDouble (roundDouble (50 / 100) * of_nat 5)\<rceil> - 1) = 2"
  "clampIndex 5 (\<lceil>roundDouble (roundDouble (90 / 100) * of_nat 5)\<rceil> - 1) = 4"
  by code_simp+

theorem percentile_nearest_rank_witness:
  "0 < length [10, 20, 30, 40, 50 :: rat]
   \<and> percentile [10, 20, 30, 40, 50] 50 = [10, 20, 30, 40, 50] ! 2
   \<and> percentile [10, 20, 30, 40, 50] 90 = [10, 20, 30, 40, 50] ! 4
   \<and> percentile [10, 20, 30, 40, 50] 50 \<in> set [10, 20, 30, 40, 50]"
  using percentile_nearest_rank[of "[10, 20, 30, 40, 50]" 50]
        percentile_nearest_rank[of "[10, 20, 30, 40, 50]" 90]
        rank_examples
  by simp

text \<open>
  The claim C9 as stated fails: for the 28th percentile of a sample of 25 the exact
  product is 7 and the nearest rank is the index 6, but the double product is greater
  than 7 and the function returns the element at the index 7.
\<close>

theorem percentile_rounds_up_past_rank:
  "length sample25 = 25
   \<and> spec_rank 25 28 = 6
   \<and> roundDouble (roundDouble (28 / 100) * 25) = 7881299347898369 / 1125899906842624
   \<and> percentile sample25 28 = 8
   \<and> sample25 ! 6 = 7
   \<and> sample25 ! 7 = 8"
  by code_simp

section \<open>Properties of normalisation and validation\<close>

lemma objGet_objSet: "objGet (objSet kvs k v) k' = (if k = k' then v else objGet kvs k')"
  by (simp add: objGet_def objSet_def update_conv')

lemma objGet_fillDefault_other: "k \<noteq> k' \<Longrightarrow> objGet (fillDefault k d out) k' = objGet out k'"
  by (simp add: fillDefault_def objGet_objSet)

lemma objGet_fillDefault_same:
  "objGet (fillDefault k d out) k = (if isString (objGet out k) then objGet out k else JStr d)"
  by (simp add: fillDefault_def objGet_objSet)

lemma objGet_coerceT_other: "k \<noteq> ''t'' \<Longrightarrow> objGet (coerceT N out) k = objGet out k"
  by (auto simp: coerceT_def objGet_objSet split: jsval.splits)

lemma jsget_JObj: "jsget (JObj kvs) k = objGet kvs k"
  by (simp add: objGet_def)

lemma objGet_spread: "objGet (spread e) k = jsget e k"
  by (cases e) (simp_all add: objGet_def)

lemma coerceT_finite:
  "(\<exists>r. objGet (coerceT N (spread e)) ''t'' = JNum (Fin r)) = finiteT N (jsget e ''t'')"
  by (auto simp: finiteT_def coerceT_def objGet_objSet objGet_spread split: jsval.splits jsnum.splits)

lemma finiteT_truthy: "finiteT N (jsget e ''t'') \<Longrightarrow> truthy e"
  by (cases e) (simp_all add: finiteT_def)

lemma strLength_fillDefault:
  "d \<noteq> [] \<Longrightarrow> length d \<le> 30 \<Longrightarrow> (strLength (objGet (fillDefault k d out) k) > 30) = (\<not> fitsBound (objGet out k))"
  by (auto simp: objGet_fillDefault_same strLength_def fitsBound_def isString_def split: jsval.splits)

lemma normalize_None_iff: "(normalizeEvent N e = None) = (\<not> normalizable N e)"
proof (cases "finiteT N (jsget e ''t'')")
  case False
  then have "\<not> (\<exists>r. objGet (coerceT N (spread e)) ''t'' = JNum (Fin r))"
    by (simp add: coerceT_finite)
  then have "normalizeEvent N e = None"
    by (auto simp: normalizeEvent_def Let_def split: jsval.splits jsnum.splits)
  with False show ?thesis by (simp add: normalizable_def)
next
  case True
  then obtain r where r: "objGet (coerceT N (spread e)) ''t'' = JNum (Fin r)"
    using coerceT_finite[of N e] by blast
  have tr: "truthy e" using True by (rule finiteT_truthy)
  show ?thesis
    using True r tr
    by (simp add: normalizeEvent_def normalizable_def Let_def objGet_fillDefault_other
        strLength_fillDefault objGet_objSet objGet_coerceT_other objGet_spread)
qed

lemma boundedStr_fillDefault:
  "length d \<le> 30 \<Longrightarrow> boundedStr (objGet (fillDefault k d out) k) = fitsBound (objGet out k)"
  by (auto simp: objGet_fillDefault_same boundedStr_def fitsBound_def isString_def split: jsval.splits)

lemma normalize_valid:
  assumes "normalizeEvent N e = Some ev"
  shows "validateEvent ev"
proof -
  have n: "normalizable N e"
    using assms normalize_None_iff[of N e] by auto
  then obtain r where r: "objGet (coerceT N (spread e)) ''t'' = JNum (Fin r)"
    using coerceT_finite[of N e] unfolding normalizable_def by blast
  have tr: "truthy e" using n unfolding normalizable_def by (auto intro: finiteT_truthy)
  define out1 where "out1 = (if r < 10 ^ 12 then objSet (coerceT N (spread e)) ''t'' (JNum (Fin (r * 1000)))
                             else coerceT N (spread e))"
  define out2 where "out2 = fillDefault ''ext'' ''0.0.0'' out1"
  define out3 where "out3 = fillDefault ''vscode'' ''0.0.0'' out2"
  define out where "out = fillDefault ''os'' ''unknown'' out3"
  have other: "k \<noteq> ''t'' \<Longrightarrow> objGet out1 k = jsget e k" for k
    by (simp add: out1_def objGet_objSet objGet_coerceT_other objGet_spread)
  have t: "isNumber (objGet out ''t'')"
    by (simp add: out_def out3_def out2_def out1_def objGet_fillDefault_other objGet_objSet r isNumber_def)
  have an: "anonOk (objGet out ''anon'')" and ev: "evtOk (objGet out ''evt'')"
    using n by (simp_all add: out_def out3_def out2_def objGet_fillDefault_other other normalizable_def)
  have b1: "boundedStr (objGet out ''ext'')"
    using n by (simp add: out_def out3_def out2_def objGet_fillDefault_other boundedStr_fillDefault other normalizable_def)
  have b2: "boundedStr (objGet out ''vscode'')"
    using n by (simp add: out_def out3_def out2_def objGet_fillDefault_other boundedStr_fillDefault other normalizable_def)
  have b3: "boundedStr (objGet out ''os'')"
    using n by (simp add: out_def out3_def out2_def objGet_fillDefault_other boundedStr_fillDefault other normalizable_def)
  have "normalizeEvent N e = Some (JObj out)"
    using n r tr
    by (simp add: normalizeEvent_def normalizable_def Let_def objGet_fillDefault_other
        strLength_fillDefault objGet_objSet objGet_coerceT_other objGet_spread
        out_def out3_def out2_def out1_def)
  with assms have "ev = JObj out" by simp
  then show ?thesis
    using t an ev b1 b2 b3 by (simp add: validateEvent_def jsget_JObj del: jsget.simps)
qed

lemma validate_bad:
  assumes "\<not> anonOk (jsget e ''anon'') \<or> \<not> evtOk (jsget e ''evt'')"
  shows "\<not> validateEvent e"
  using assms by (auto simp: validateEvent_def)

text \<open>
  Claim C5, as amended. An input whose timestamp is a finite number (or a string that
  converts to one), whose \<^verbatim>\<open>anon\<close> is 32 lower-case hexadecimal characters, whose \<^verbatim>\<open>evt\<close>
  is a recognised event name and whose \<^verbatim>\<open>ext\<close>, \<^verbatim>\<open>vscode\<close> and \<^verbatim>\<open>os\<close>, where they are
  strings, have at most 30 characters, is normalised to an event that passes
  \<^verbatim>\<open>validateEvent\<close>; every other input is normalised to \<^verbatim>\<open>null\<close>. An input whose \<^verbatim>\<open>anon\<close>
  or \<^verbatim>\<open>evt\<close> is not of that form is normalised to \<^verbatim>\<open>null\<close> and fails \<^verbatim>\<open>validateEvent\<close>.
\<close>

theorem normalize_then_validate:
  "(normalizable N e \<longrightarrow> (\<exists>ev. normalizeEvent N e = Some ev \<and> validateEvent ev))
   \<and> (\<not> normalizable N e \<longrightarrow> normalizeEvent N e = None)
   \<and> (\<not> anonOk (jsget e ''anon'') \<or> \<not> evtOk (jsget e ''evt'')
        \<longrightarrow> normalizeEvent N e = None \<and> \<not> validateEvent e)"
proof -
  have a: "\<exists>ev. normalizeEvent N e = Some ev \<and> validateEvent ev" if "normalizable N e"
  proof -
    from that obtain ev where "normalizeEvent N e = Some ev"
      using normalize_None_iff[of N e] by auto
    then show ?thesis using normalize_valid by blast
  qed
  have b: "normalizeEvent N e = None" if "\<not> normalizable N e"
    using that by (simp add: normalize_None_iff)
  have c: "normalizeEvent N e = None \<and> \<not> validateEvent e"
    if "\<not> anonOk (jsget e ''anon'') \<or> \<not> evtOk (jsget e ''evt'')"
    using that validate_bad[of e] b by (auto simp: normalizable_def)
  from a b c show ?thesis by blast
qed

lemmas eval_normalize = normalizable_def finiteT_def fitsBound_def sampleEvent_def goodAnon_def
  anonOk_def anonRe_def evtOk_def EVENTS_def

theorem normalize_then_validate_witness:
  "normalizable decimalNumber (sampleEvent goodAnon ''test.ping'')
   \<and> (\<exists>ev. normalizeEvent decimalNumber (sampleEvent goodAnon ''test.ping'') = Some ev \<and> validateEvent ev)
   \<and> \<not> anonOk (jsget (sampleEvent ''ABCDEF'' ''test.ping'') ''anon'')
   \<and> normalizeEvent decimalNumber (sampleEvent ''ABCDEF'' ''test.ping'') = None
   \<and> \<not> validateEvent (sampleEvent ''ABCDEF'' ''test.ping'')"
proof -
  have g: "normalizable decimalNumber (sampleEvent goodAnon ''test.ping'')"
    by (simp add: eval_normalize)
  have b: "\<not> anonOk (jsget (sampleEvent ''ABCDEF'' ''test.ping'') ''anon'')"
    by (simp add: eval_normalize)
  show ?thesis
    using g b normalize_then_validate[of decimalNumber "sampleEvent goodAnon ''test.ping''"]
      normalize_then_validate[of decimalNumber "sampleEvent ''ABCDEF'' ''test.ping''"]
    by blast
qed

text \<open>
  The claim C5 as stated fails: an input with a well-formed \<^verbatim>\<open>anon\<close> and a recognised
  \<^verbatim>\<open>evt\<close> is rejected when it has no timestamp, and when its \<^verbatim>\<open>os\<close> has 31 characters.
\<close>

theorem normalize_rejects_good_anon_evt:
  "anonOk (JStr goodAnon) \<and> evtOk (JStr ''test.ping'')
   \<and> normalizeEvent decimalNumber (JObj [(''anon'', JStr goodAnon), (''evt'', JStr ''test.ping'')]) = None
   \<and> normalizeEvent decimalNumber
        (JObj [(''anon'', JStr goodAnon), (''evt'', JStr ''test.ping''), (''t'', JNum (Fin 1700000000000)),
               (''os'', JStr ''a-platform-name-of-31-characters'')]) = None"
  by (simp add: normalize_None_iff eval_normalize)

section \<open>Properties of the ingest route\<close>












lemma trim_no_break_space: "toLowerCase (trim (CHR 0xA0 # ''jwc.v1'' @ [CHR 0x09])) = ''jwc.v1''"
  by (simp add: toLowerCase_def toLowerChar_def latin1Capitals_def latin1Smalls_def trim_def isSpace_def)


















lemma isPrivate_Some: "a \<noteq> [] \<Longrightarrow> isPrivate (Some a) = privateRe a"
  by (simp add: isPrivate_def)

lemma filterBoolean_nonempty: "a \<in> set (filterBoolean cs) \<Longrightarrow> a \<noteq> []"
  by (induction cs) (auto simp: filterBoolean_def split: option.splits if_splits)

lemma filterBoolean_append: "filterBoolean (xs @ ys) = filterBoolean xs @ filterBoolean ys"
  by (simp add: filterBoolean_def)

lemma filterBoolean_hops: "filterBoolean (map Some (parseForwardedFor v)) = parseForwardedFor v"
proof -
  have "filterBoolean (map Some (filter (\<lambda>x. x \<noteq> []) zs)) = filter (\<lambda>x. x \<noteq> []) zs" for zs
    by (induction zs) (simp_all add: filterBoolean_def)
  then show ?thesis
    by (cases v) (simp_all add: parseForwardedFor_def filterBoolean_def)
qed

lemma candidates_order:
  "candidates req =
     filterBoolean [h req ''cf-connecting-ip'', h req ''x-client-ip'', h req ''x-real-ip'']
     @ parseForwardedFor (h req ''x-forwarded-for'')
     @ filterBoolean [ip req]"
  unfolding candidates_def filterBoolean_append filterBoolean_hops by simp

lemma find_private:
  "find (\<lambda>a. \<not> isPrivate (Some a)) (candidates req) = find (\<lambda>a. \<not> privateRe a) (candidates req)"
proof -
  have "find (\<lambda>a. \<not> isPrivate (Some a)) zs = find (\<lambda>a. \<not> privateRe a) zs" if "\<forall>a\<in>set zs. a \<noteq> []" for zs
    using that by (induction zs) (simp_all add: isPrivate_Some)
  then show ?thesis
    using filterBoolean_nonempty unfolding candidates_def by blast
qed

lemma pick_first_public:
  assumes "i < length (candidates req)" "\<not> privateRe (candidates req ! i)"
    and "\<forall>j<i. privateRe (candidates req ! j)"
  shows "pickClientIp req = Some (candidates req ! i)"
proof -
  have "find (\<lambda>a. \<not> privateRe a) (candidates req) = Some (candidates req ! i)"
    using assms unfolding find_Some_iff by auto
  then show ?thesis
    by (simp add: pickClientIp_def Let_def find_private)
qed

lemma pick_all_private:
  assumes "\<forall>a\<in>set (candidates req). privateRe a"
  shows "pickClientIp req = (case candidates req of a # _ \<Rightarrow> Some a | [] \<Rightarrow> ip req)"
proof -
  have "find (\<lambda>a. \<not> privateRe a) (candidates req) = None"
    using assms unfolding find_None_iff by auto
  then show ?thesis
    by (simp add: pickClientIp_def Let_def find_private)
qed

lemmas eval_ip = parseForwardedFor_def trim_def isSpace_def privateRe_def startsWith_def re172_def
  filterBoolean_def isDigit_def

text \<open>
  Claim C8, as amended. The candidates are, in this order, the non-empty values of
  \<^verbatim>\<open>cf-connecting-ip\<close>, \<^verbatim>\<open>x-client-ip\<close>, \<^verbatim>\<open>x-real-ip\<close>, the non-empty trimmed hops of
  \<^verbatim>\<open>x-forwarded-for\<close> and the peer address. The result is the first candidate that does
  not begin with one of the prefixes \<^verbatim>\<open>10.\<close>, \<^verbatim>\<open>127.\<close>, \<^verbatim>\<open>192.168.\<close>, \<^verbatim>\<open>172.16.\<close> to
  \<^verbatim>\<open>172.31.\<close>, \<^verbatim>\<open>::1\<close>, \<^verbatim>\<open>fc00:\<close>, \<^verbatim>\<open>fe80:\<close>, \<^verbatim>\<open>fd00:\<close>; when every candidate begins with
  one of them it is the first candidate, or the peer address when there is no candidate.
  For the forwarded chain 10.0.0.5, 203.0.113.7 and no other address header the result
  is 203.0.113.7.
\<close>

theorem pickClientIp_first_public:
  "candidates req =
     filterBoolean [h req ''cf-connecting-ip'', h req ''x-client-ip'', h req ''x-real-ip'']
     @ parseForwardedFor (h req ''x-forwarded-for'')
     @ filterBoolean [ip req]
   \<and> (\<forall>i. i < length (candidates req) \<and> \<not> privateRe (candidates req ! i)
          \<and> (\<forall>j<i. privateRe (candidates req ! j))
        \<longrightarrow> pickClientIp req = Some (candidates req ! i))
   \<and> ((\<forall>a\<in>set (candidates req). privateRe a)
        \<longrightarrow> pickClientIp req = (case candidates req of a # _ \<Rightarrow> Some a | [] \<Rightarrow> ip req))
   \<and> (h req ''cf-connecting-ip'' = None \<and> h req ''x-client-ip'' = None \<and> h req ''x-real-ip'' = None
        \<and> h req ''x-forwarded-for'' = Some ''10.0.0.5, 203.0.113.7''
        \<longrightarrow> pickClientIp req = Some ''203.0.113.7'')"
proof -
  have ex: "pickClientIp req = Some ''203.0.113.7''"
    if hd: "h req ''cf-connecting-ip'' = None \<and> h req ''x-client-ip'' = None \<and> h req ''x-real-ip'' = None
        \<and> h req ''x-forwarded-for'' = Some ''10.0.0.5, 203.0.113.7''"
  proof -
    have c: "candidates req = [''10.0.0.5'', ''203.0.113.7''] @ filterBoolean [ip req]"
      unfolding candidates_order using hd by (simp add: eval_ip)
    have "pickClientIp req = Some (candidates req ! 1)"
    proof (rule pick_first_public)
      show "1 < length (candidates req)" by (simp add: c)
      show "\<not> privateRe (candidates req ! 1)" by (simp add: c eval_ip)
      show "\<forall>j<1. privateRe (candidates req ! j)" by (simp add: c eval_ip)
    qed
    then show ?thesis by (simp add: c)
  qed
  from candidates_order[of req] pick_first_public[of _ req] pick_all_private[of req] ex
  show ?thesis by blast
qed

theorem pickClientIp_first_public_witness:
  "h (forwarded ''10.0.0.5, 203.0.113.7'' (Some ''127.0.0.1'')) ''cf-connecting-ip'' = None
   \<and> h (forwarded ''10.0.0.5, 203.0.113.7'' (Some ''127.0.0.1'')) ''x-client-ip'' = None
   \<and> h (forwarded ''10.0.0.5, 203.0.113.7'' (Some ''127.0.0.1'')) ''x-real-ip'' = None
   \<and> h (forwarded ''10.0.0.5, 203.0.113.7'' (Some ''127.0.0.1'')) ''x-forwarded-for'' = Some ''10.0.0.5, 203.0.113.7''
   \<and> pickClientIp (forwarded ''10.0.0.5, 203.0.113.7'' (Some ''127.0.0.1'')) = Some ''203.0.113.7''
   \<and> candidates (forwarded ''10.0.0.5, 192.168.1.1'' (Some ''127.0.0.1'')) = [''10.0.0.5'', ''192.168.1.1'', ''127.0.0.1'']
   \<and> pickClientIp (forwarded ''10.0.0.5, 192.168.1.1'' (Some ''127.0.0.1'')) = Some ''10.0.0.5''
   \<and> candidates (forwarded '' , '' None) = []
   \<and> pickClientIp (forwarded '' , '' None) = None"
proof -
  have hs: "h (forwarded ''10.0.0.5, 203.0.113.7'' (Some ''127.0.0.1'')) ''cf-connecting-ip'' = None
   \<and> h (forwarded ''10.0.0.5, 203.0.113.7'' (Some ''127.0.0.1'')) ''x-client-ip'' = None
   \<and> h (forwarded ''10.0.0.5, 203.0.113.7'' (Some ''127.0.0.1'')) ''x-real-ip'' = None
   \<and> h (forwarded ''10.0.0.5, 203.0.113.7'' (Some ''127.0.0.1'')) ''x-forwarded-for'' = Some ''10.0.0.5, 203.0.113.7''"
    by (simp add: h_def forwarded_def toLowerCase_def toLowerChar_def latin1Capitals_def latin1Smalls_def)
  have one: "pickClientIp (forwarded ''10.0.0.5, 203.0.113.7'' (Some ''127.0.0.1'')) = Some ''203.0.113.7''"
    using hs pickClientIp_first_public[of "forwarded ''10.0.0.5, 203.0.113.7'' (Some ''127.0.0.1'')"]
    by blast
  have c2: "candidates (forwarded ''10.0.0.5, 192.168.1.1'' (Some ''127.0.0.1'')) = [''10.0.0.5'', ''192.168.1.1'', ''127.0.0.1'']"
    by (simp add: candidates_def forwarded_def h_def toLowerCase_def toLowerChar_def latin1Capitals_def latin1Smalls_def eval_ip)
  have "\<forall>a\<in>set (candidates (forwarded ''10.0.0.5, 192.168.1.1'' (Some ''127.0.0.1''))). privateRe a"
    unfolding c2 by (simp add: eval_ip)
  with pickClientIp_first_public[of "forwarded ''10.0.0.5, 192.168.1.1'' (Some ''127.0.0.1'')"]
  have "pickClientIp (forwarded ''10.0.0.5, 192.168.1.1'' (Some ''127.0.0.1''))
      = (case candidates (forwarded ''10.0.0.5, 192.168.1.1'' (Some ''127.0.0.1'')) of
           a # _ \<Rightarrow> Some a
         | [] \<Rightarrow> ip (forwarded ''10.0.0.5, 192.168.1.1'' (Some ''127.0.0.1'')))"
    by blast
  then have two: "pickClientIp (forwarded ''10.0.0.5, 192.168.1.1'' (Some ''127.0.0.1'')) = Some ''10.0.0.5''"
    by (simp add: c2)
  have c3: "candidates (forwarded '' , '' None) = []"
    by (simp add: candidates_def forwarded_def h_def toLowerCase_def toLowerChar_def latin1Capitals_def latin1Smalls_def eval_ip)
  then have "\<forall>a\<in>set (candidates (forwarded '' , '' None)). privateRe a" by simp
  with pickClientIp_first_public[of "forwarded '' , '' None"]
  have "pickClientIp (forwarded '' , '' None)
      = (case candidates (forwarded '' , '' None) of a # _ \<Rightarrow> Some a | [] \<Rightarrow> ip (forwarded '' , '' None))"
    by blast
  then have "pickClientIp (forwarded '' , '' None) = ip (forwarded '' , '' None)"
    by (simp add: c3)
  then have three: "pickClientIp (forwarded '' , '' None) = None"
    by (simp add: forwarded_def)
  from hs one c2 two c3 three show ?thesis by blast
qed

text \<open>
  The claim C8 as stated fails: the link-local IPv4 address 169.254.10.1 is returned
  although a later hop, 203.0.113.7, is in none of the classes the claim names.
\<close>

theorem pickClientIp_link_local_chosen:
  "spec_private ''169.254.10.1'' \<and> \<not> spec_private ''203.0.113.7''
   \<and> candidates (forwarded ''169.254.10.1, 203.0.113.7'' (Some ''127.0.0.1''))
       = [''169.254.10.1'', ''203.0.113.7'', ''127.0.0.1'']
   \<and> pickClientIp (forwarded ''169.254.10.1, 203.0.113.7'' (Some ''127.0.0.1'')) = Some ''169.254.10.1''
   \<and> spec_pickClientIp (forwarded ''169.254.10.1, 203.0.113.7'' (Some ''127.0.0.1'')) = Some ''203.0.113.7''"
  by (simp add: pickClientIp_def spec_pickClientIp_def candidates_def forwarded_def h_def toLowerCase_def
      toLowerChar_def latin1Capitals_def latin1Smalls_def isPrivate_def spec_private_def eval_ip)

section \<open>Properties of the statistics\<close>

lemma sum_bump: "sum_list (map snd (bump k al)) = sum_list (map snd al) + 1"
  by (induction al) auto

lemma sum_incrAt: "j < length xs \<Longrightarrow> sum_list (incrAt (Some j) xs) = sum_list xs + 1"
  by (simp add: incrAt_def sum_list_update)

lemma length_incrAt: "length (incrAt i xs) = length xs"
  by (simp add: incrAt_def split: option.splits)

lemma sum_incrAt_opt:
  "(\<And>j. i = Some j \<Longrightarrow> j < length xs) \<Longrightarrow> sum_list (incrAt i xs) = sum_list xs + (if i = None then 0 else 1)"
  by (cases i) (simp_all add: sum_incrAt, simp add: incrAt_def)

lemma hour_less: "getUTCHours d = Some j \<Longrightarrow> j < 24"
  by (cases d) (auto simp: getUTCHours_def)

lemma hour_None: "(getUTCHours d = None) = (d = None)"
  by (simp add: getUTCHours_def)

lemma step_total: "a_total (snd (step now di s e)) = a_total (snd s) + 1"
  by (cases s) (simp add: step_def Let_def split: prod.splits)

lemma step_byEvent:
  "sum_list (map snd (a_byEvent (snd (step now di s e)))) = sum_list (map snd (a_byEvent (snd s))) + 1"
  by (cases s) (simp add: step_def Let_def sum_bump split: prod.splits)

lemma step_hourly:
  "a_hourly (snd (step now di s e)) = incrAt (getUTCHours (eventDate now (ev_t e))) (a_hourly (snd s))"
  by (cases s) (simp add: step_def Let_def split: prod.splits)

lemma step_dayHits:
  "a_dayHits (snd (step now di s e)) = incrAt (Some di) (a_dayHits (snd s))"
  by (cases s) (simp add: step_def Let_def split: prod.splits)

lemma step_started:
  "a_started (snd (step now di s e)) = a_started (snd s) + (if isStarted e then 1 else 0)"
  by (cases s) (simp add: step_def Let_def isStarted_def orDefault_def split: prod.splits)

lemma step_completed:
  "a_completed (snd (step now di s e)) = a_completed (snd s) + (if isCompleted e then 1 else 0)"
  by (cases s) (simp add: step_def Let_def isCompleted_def orDefault_def split: prod.splits)

lemma step_compileErr:
  "a_compileErr (snd (step now di s e)) = a_compileErr (snd s) + (if isCompileError e then 1 else 0)"
  by (cases s) (simp add: step_def Let_def isCompileError_def orDefault_def split: prod.splits)

lemma step_runtimeErr:
  "a_runtimeErr (snd (step now di s e)) = a_runtimeErr (snd s) + (if isRuntimeError e then 1 else 0)"
  by (cases s) (auto simp: step_def Let_def isRuntimeError_def orDefault_def split: prod.splits)

lemma step_durations:
  "length (a_durations (snd (step now di s e)))
     = length (a_durations (snd s)) + (if hasPositiveDuration e then 1 else 0)"
  by (cases s) (simp add: step_def Let_def hasPositiveDuration_def isCompleted_def orDefault_def
      split: prod.splits option.splits)


lemma foldl_step_measure:
  fixes f :: "acc \<Rightarrow> nat"
  assumes stp: "\<And>s e. I (snd s) \<Longrightarrow> I (snd (step now di s e)) \<and> f (snd (step now di s e)) = f (snd s) + w e"
    and "I (snd s)"
  shows "I (snd (foldl (step now di) s es))
       \<and> f (snd (foldl (step now di) s es)) = f (snd s) + sum_list (map w es)"
  using assms(2)
proof (induction es arbitrary: s)
  case Nil
  then show ?case by simp
next
  case (Cons e es)
  from stp[OF Cons.prems, of e]
  have i: "I (snd (step now di s e))" and f: "f (snd (step now di s e)) = f (snd s) + w e"
    by simp_all
  from Cons.IH[OF i] f show ?case by simp
qed

lemma scanDays_measure:
  fixes f :: "acc \<Rightarrow> nat"
  assumes stp: "\<And>di s e. I (snd s) \<Longrightarrow> di < n
      \<Longrightarrow> I (snd (step now di s e)) \<and> f (snd (step now di s e)) = f (snd s) + w e"
    and "I (snd s)" "di + length files \<le> n"
  shows "I (snd (scanDays now di s files))
       \<and> f (snd (scanDays now di s files)) = f (snd s) + sum_list (map w (concat files))"
  using assms(2,3)
proof (induction files arbitrary: di s)
  case Nil
  then show ?case by simp
next
  case (Cons arr rest)
  have d: "di < n" using Cons.prems(2) by simp
  have one: "I (snd (foldl (step now di) s arr))
       \<and> f (snd (foldl (step now di) s arr)) = f (snd s) + sum_list (map w arr)"
    using foldl_step_measure[of I now di f w s arr] stp[OF _ d] Cons.prems(1) by blast
  have "Suc di + length rest \<le> n" using Cons.prems(2) by simp
  from Cons.IH[OF conjunct1[OF one] this] one show ?case by simp
qed

lemma sum_indicator: "sum_list (map (\<lambda>e. if P e then 1 else 0) es) = countWhere P es"
  by (induction es) (simp_all add: countWhere_def)

lemma sum_ones: "sum_list (map (\<lambda>e. Suc 0) es) = length es"
  by (induction es) simp_all

lemma initAcc_fields:
  "a_total (initAcc n) = 0" "a_byEvent (initAcc n) = []" "a_hourly (initAcc n) = replicate 24 0"
  "a_dayHits (initAcc n) = replicate n 0" "a_started (initAcc n) = 0" "a_completed (initAcc n) = 0"
  "a_compileErr (initAcc n) = 0" "a_runtimeErr (initAcc n) = 0" "a_durations (initAcc n) = []"
  by (simp_all add: initAcc_def)

lemma scan_total:
  "a_total (snd (scanDays now 0 (G, initAcc (length files)) files)) = length (concat files)"
  using scanDays_measure[of "\<lambda>A. True" "length files" now a_total "\<lambda>e. 1" "(G, initAcc (length files))" 0 files]
  by (simp add: step_total initAcc_fields sum_ones)

lemma scan_byEvent:
  "sum_list (map snd (a_byEvent (snd (scanDays now 0 (G, initAcc (length files)) files)))) = length (concat files)"
  using scanDays_measure[of "\<lambda>A. True" "length files" now "\<lambda>A. sum_list (map snd (a_byEvent A))" "\<lambda>e. 1"
      "(G, initAcc (length files))" 0 files]
  by (simp add: step_byEvent initAcc_fields sum_ones)

lemma scan_dayHits:
  "sum_list (a_dayHits (snd (scanDays now 0 (G, initAcc (length files)) files))) = length (concat files)"
  using scanDays_measure[of "\<lambda>A. length (a_dayHits A) = length files" "length files" now
      "\<lambda>A. sum_list (a_dayHits A)" "\<lambda>e. 1" "(G, initAcc (length files))" 0 files]
  by (simp add: step_dayHits initAcc_fields sum_ones sum_incrAt length_incrAt)

lemma scan_hourly:
  "sum_list (a_hourly (snd (scanDays now 0 (G, initAcc (length files)) files)))
     = countWhere (hasValidDate now) (concat files)"
proof -
  have stp: "length (a_hourly (snd (step now di s e))) = 24
      \<and> sum_list (a_hourly (snd (step now di s e)))
          = sum_list (a_hourly (snd s)) + (if hasValidDate now e then 1 else 0)"
    if "length (a_hourly (snd s)) = 24" for di s e
    using that hour_less[of "eventDate now (ev_t e)"]
    by (simp add: step_hourly length_incrAt sum_incrAt_opt hour_None hasValidDate_def)
  from scanDays_measure[of "\<lambda>A. length (a_hourly A) = 24" "length files" now
      "\<lambda>A. sum_list (a_hourly A)" "\<lambda>e. if hasValidDate now e then 1 else 0" "(G, initAcc (length files))" 0 files]
    stp
  show ?thesis by (simp add: initAcc_fields sum_indicator)
qed

lemma scan_started:
  "a_started (snd (scanDays now 0 (G, initAcc (length files)) files)) = countWhere isStarted (concat files)"
  using scanDays_measure[of "\<lambda>A. True" "length files" now a_started "\<lambda>e. if isStarted e then 1 else 0"
      "(G, initAcc (length files))" 0 files]
  by (simp add: step_started initAcc_fields sum_indicator)

lemma scan_compileErr:
  "a_compileErr (snd (scanDays now 0 (G, initAcc (length files)) files)) = countWhere isCompileError (concat files)"
  using scanDays_measure[of "\<lambda>A. True" "length files" now a_compileErr "\<lambda>e. if isCompileError e then 1 else 0"
      "(G, initAcc (length files))" 0 files]
  by (simp add: step_compileErr initAcc_fields sum_indicator)

lemma scan_runtimeErr:
  "a_runtimeErr (snd (scanDays now 0 (G, initAcc (length files)) files)) = countWhere isRuntimeError (concat files)"
  using scanDays_measure[of "\<lambda>A. True" "length files" now a_runtimeErr "\<lambda>e. if isRuntimeError e then 1 else 0"
      "(G, initAcc (length files))" 0 files]
  by (simp add: step_runtimeErr initAcc_fields sum_indicator)

lemma scan_durations:
  "length (a_durations (snd (scanDays now 0 (G, initAcc (length files)) files)))
     = countWhere hasPositiveDuration (concat files)"
  using scanDays_measure[of "\<lambda>A. True" "length files" now "\<lambda>A. length (a_durations A)"
      "\<lambda>e. if hasPositiveDuration e then 1 else 0" "(G, initAcc (length files))" 0 files]
  by (simp add: step_durations initAcc_fields sum_indicator)

lemma find_in_set: "find P xs = Some i \<Longrightarrow> i \<in> set xs"
  by (auto simp: find_Some_iff)

lemma histIndex_less: "histIndex d < 8"
proof (cases "find (\<lambda>i. i < length histEdges - 1 \<and> d \<ge> histEdges ! i \<and> d < histEdges ! (i + 1)) [0, 1, 2, 3, 4, 5, 6, 7]")
  case None
  then show ?thesis by (simp add: histIndex_def histEdges_def)
next
  case (Some i)
  from find_in_set[OF Some] have "i < 8" by auto
  with Some show ?thesis by (simp add: histIndex_def)
qed

lemma histogram_sum: "length (histogram ds) = 8 \<and> sum_list (histogram ds) = length ds"
proof -
  have "length (foldl (\<lambda>hv d. incrAt (Some (histIndex d)) hv) h0 ds) = 8
      \<and> sum_list (foldl (\<lambda>hv d. incrAt (Some (histIndex d)) hv) h0 ds) = sum_list h0 + length ds"
    if "length h0 = 8" for h0
    using that
  proof (induction ds arbitrary: h0)
    case Nil
    then show ?case by simp
  next
    case (Cons d ds)
    have l: "length (incrAt (Some (histIndex d)) h0) = 8"
      using Cons.prems by (simp add: length_incrAt)
    have s: "sum_list (incrAt (Some (histIndex d)) h0) = sum_list h0 + 1"
      using Cons.prems histIndex_less[of d] by (simp add: sum_incrAt)
    from Cons.IH[OF l] s show ?case by simp
  qed
  from this[of "[0, 0, 0, 0, 0, 0, 0, 0]"] show ?thesis
    by (simp add: histogram_def histEdges_def)
qed

lemma readWindowStats_fields:
  "total (snd (readWindowStats G now files)) = a_total (snd (scanDays now 0 (G, initAcc (length files)) files))"
  "byEvent (snd (readWindowStats G now files)) = a_byEvent (snd (scanDays now 0 (G, initAcc (length files)) files))"
  "daily_hits (snd (readWindowStats G now files)) = a_dayHits (snd (scanDays now 0 (G, initAcc (length files)) files))"
  "hourly (snd (readWindowStats G now files)) = a_hourly (snd (scanDays now 0 (G, initAcc (length files)) files))"
  "runs_started (snd (readWindowStats G now files)) = a_started (snd (scanDays now 0 (G, initAcc (length files)) files))"
  "errors_compile (snd (readWindowStats G now files)) = a_compileErr (snd (scanDays now 0 (G, initAcc (length files)) files))"
  "errors_runtime (snd (readWindowStats G now files)) = a_runtimeErr (snd (scanDays now 0 (G, initAcc (length files)) files))"
  "durations_count (snd (readWindowStats G now files))
     = length (a_durations (snd (scanDays now 0 (G, initAcc (length files)) files)))"
  "hist_values (snd (readWindowStats G now files))
     = histogram (sort (a_durations (snd (scanDays now 0 (G, initAcc (length files)) files))))"
  "compileRate (snd (readWindowStats G now files))
     = of_nat (a_compileErr (snd (scanDays now 0 (G, initAcc (length files)) files)))
       / of_nat (max 1 (a_started (snd (scanDays now 0 (G, initAcc (length files)) files))))"
  "runtimeRate (snd (readWindowStats G now files))
     = of_nat (a_runtimeErr (snd (scanDays now 0 (G, initAcc (length files)) files)))
       / of_nat (max 1 (a_started (snd (scanDays now 0 (G, initAcc (length files)) files))))"
  by (simp_all add: readWindowStats_def Let_def split: prod.splits)

lemma window_counts:
  "total (snd (readWindowStats G now files)) = length (concat files)"
  "sum_list (map snd (byEvent (snd (readWindowStats G now files)))) = length (concat files)"
  "sum_list (daily_hits (snd (readWindowStats G now files))) = length (concat files)"
  "sum_list (hourly (snd (readWindowStats G now files))) = countWhere (hasValidDate now) (concat files)"
  by (simp_all add: readWindowStats_fields scan_total scan_byEvent scan_dayHits scan_hourly)


lemma hist_file:
  "length (hist_values (snd (readWindowStats G now files))) = 8
   \<and> sum_list (hist_values (snd (readWindowStats G now files))) = countWhere hasPositiveDuration (concat files)
   \<and> durations_count (snd (readWindowStats G now files)) = countWhere hasPositiveDuration (concat files)"
  by (simp add: readWindowStats_fields histogram_sum scan_durations)

lemma durIn_split:
  assumes "lo \<le> mid" "mid \<le> hi"
  shows "countWhere (durIn lo (Some mid)) rs + countWhere (durIn mid (Some hi)) rs = countWhere (durIn lo (Some hi)) rs"
  using assms by (induction rs) (auto simp: countWhere_def durIn_def split: option.splits)

lemma durIn_split_open:
  assumes "lo \<le> mid"
  shows "countWhere (durIn lo (Some mid)) rs + countWhere (durIn mid None) rs = countWhere (durIn lo None) rs"
  using assms by (induction rs) (auto simp: countWhere_def durIn_def split: option.splits)

lemma buckets_sum:
  "sum_list [countWhere (durIn 0 (Some 500)) rs, countWhere (durIn 500 (Some 1000)) rs,
             countWhere (durIn 1000 (Some 3000)) rs, countWhere (durIn 3000 (Some 10000)) rs,
             countWhere (durIn 10000 (Some 30000)) rs, countWhere (durIn 30000 (Some 60000)) rs,
             countWhere (durIn 60000 (Some 120000)) rs, countWhere (durIn 120000 None) rs]
   = countWhere (durIn 0 None) rs"
proof -
  have a: "countWhere (durIn 0 (Some 500)) rs + countWhere (durIn 500 (Some 1000)) rs = countWhere (durIn 0 (Some 1000)) rs"
    by (rule durIn_split) simp_all
  have b: "countWhere (durIn 0 (Some 1000)) rs + countWhere (durIn 1000 (Some 3000)) rs = countWhere (durIn 0 (Some 3000)) rs"
    by (rule durIn_split) simp_all
  have c: "countWhere (durIn 0 (Some 3000)) rs + countWhere (durIn 3000 (Some 10000)) rs = countWhere (durIn 0 (Some 10000)) rs"
    by (rule durIn_split) simp_all
  have d: "countWhere (durIn 0 (Some 10000)) rs + countWhere (durIn 10000 (Some 30000)) rs = countWhere (durIn 0 (Some 30000)) rs"
    by (rule durIn_split) simp_all
  have e: "countWhere (durIn 0 (Some 30000)) rs + countWhere (durIn 30000 (Some 60000)) rs = countWhere (durIn 0 (Some 60000)) rs"
    by (rule durIn_split) simp_all
  have f: "countWhere (durIn 0 (Some 60000)) rs + countWhere (durIn 60000 (Some 120000)) rs = countWhere (durIn 0 (Some 120000)) rs"
    by (rule durIn_split) simp_all
  have g: "countWhere (durIn 0 (Some 120000)) rs + countWhere (durIn 120000 None) rs = countWhere (durIn 0 None) rs"
    by (rule durIn_split_open) simp
  from a b c d e f g show ?thesis by simp
qed

lemma countWhere_filter: "countWhere P (filter Q rs) = countWhere (\<lambda>r. Q r \<and> P r) rs"
  by (induction rs) (simp_all add: countWhere_def)

lemma countWhere_cong:
  assumes "\<And>r. P r = Q r"
  shows "countWhere P rs = countWhere Q rs"
proof -
  have "P = Q" using assms by (simp add: fun_eq_iff)
  then show ?thesis by simp
qed

lemma aggregate_fields:
  "db_total (aggregate wd w rows)
     = length (filter (inWindow (w)) rows)"
  "db_started (aggregate wd w rows)
     = countWhere rowStarted (filter (inWindow (w)) rows)"
  "db_compile (aggregate wd w rows)
     = countWhere rowCompileError (filter (inWindow (w)) rows)"
  "db_runtime (aggregate wd w rows)
     = countWhere rowRuntimeError (filter (inWindow (w)) rows)"
  "db_durations_count (aggregate wd w rows)
     = countWhere rowHasDuration (filter (inWindow (w)) rows)"
  "db_windowDays (aggregate wd w rows) = wd"
  by (simp_all add: aggregate_def Let_def countWhere_def rowStarted_def rowCompileError_def
      rowRuntimeError_def rowHasDuration_def conj_commute)

lemma aggregate_rates:
  "db_compileRate (aggregate wd w rows)
     = (if db_started (aggregate wd w rows) \<noteq> 0
        then of_nat (db_compile (aggregate wd w rows))
             / of_nat (db_started (aggregate wd w rows))
        else 0)"
  "db_runtimeRate (aggregate wd w rows)
     = (if db_started (aggregate wd w rows) \<noteq> 0
        then of_nat (db_runtime (aggregate wd w rows))
             / of_nat (db_started (aggregate wd w rows))
        else 0)"
  by (simp_all add: aggregate_def Let_def)

lemma hist_db:
  "length (db_hist_values (aggregate wd w rows)) = 8
   \<and> sum_list (db_hist_values (aggregate wd w rows))
       = countWhere rowNonNegativeDuration (filter (inWindow (w)) rows)"
proof -
  define sel where "sel = filter (inWindow (w)) rows"
  define comp where "comp = filter (\<lambda>r. col_evt r = ''java.run.completed'') sel"
  have v: "db_hist_values (aggregate wd w rows)
     = [countWhere (durIn 0 (Some 500)) comp, countWhere (durIn 500 (Some 1000)) comp,
        countWhere (durIn 1000 (Some 3000)) comp, countWhere (durIn 3000 (Some 10000)) comp,
        countWhere (durIn 10000 (Some 30000)) comp, countWhere (durIn 30000 (Some 60000)) comp,
        countWhere (durIn 60000 (Some 120000)) comp, countWhere (durIn 120000 None) comp]"
    by (simp add: aggregate_def Let_def comp_def sel_def)
  have "countWhere (durIn 0 None) comp = countWhere rowNonNegativeDuration sel"
    unfolding comp_def countWhere_filter
    by (rule countWhere_cong) (auto simp: rowNonNegativeDuration_def durIn_def split: option.splits)
  then show ?thesis
    unfolding v buckets_sum by (simp add: sel_def)
qed

lemmas eval_stats = readWindowStats_def initAcc_def step_def Let_def logged_def emptyGlobal_def
  orDefault_def eventDate_def scaleTs_def newDate_def truncRat_def getUTCHours_def getUTCDay_def
  toUpperCase_def toUpperChar_def latin1Capitals_def latin1Smalls_def continentOfCountry_def CONTINENT_def countVisitor_def incrAt_def
  percentile_def histogram_def histEdges_def histIndex_def goodAnon_def

text \<open>
  Claim C1 asks that two successive calls of \<^verbatim>\<open>readWindowStats\<close> on the same stored events
  return the same numbers of unique visitors per country and per continent. The sets of
  visitors seen are kept on the object \<^verbatim>\<open>global\<close>, which the second call receives as the
  first call left it: for a log of one event from the United States the first call
  reports one visitor for the country and for the continent, the second call none.
\<close>

theorem visitors_differ_on_second_call:
  "byCountry (snd (readWindowStats emptyGlobal 1800000000000
      [[logged ''test.ping'' (Some 1700000000000) goodAnon ''US'' None]]))
     = [(''US'', \<lparr>hits = 1, visitors = 1\<rparr>)]
   \<and> byCountry (snd (readWindowStats
        (fst (readWindowStats emptyGlobal 1800000000000
           [[logged ''test.ping'' (Some 1700000000000) goodAnon ''US'' None]]))
        1800000000000 [[logged ''test.ping'' (Some 1700000000000) goodAnon ''US'' None]]))
     = [(''US'', \<lparr>hits = 1, visitors = 0\<rparr>)]
   \<and> byContinent (snd (readWindowStats emptyGlobal 1800000000000
      [[logged ''test.ping'' (Some 1700000000000) goodAnon ''US'' None]]))
     = [(''NA'', \<lparr>hits = 1, visitors = 1\<rparr>)]
   \<and> byContinent (snd (readWindowStats
        (fst (readWindowStats emptyGlobal 1800000000000
           [[logged ''test.ping'' (Some 1700000000000) goodAnon ''US'' None]]))
        1800000000000 [[logged ''test.ping'' (Some 1700000000000) goodAnon ''US'' None]]))
     = [(''NA'', \<lparr>hits = 1, visitors = 0\<rparr>)]"
  by (simp add: eval_stats)


text \<open>
  Claim C10 asks that the total equals the sum of \<^verbatim>\<open>byEvent\<close>, the sum of \<^verbatim>\<open>daily.hits\<close> and
  the sum of the 24 hourly entries. The first three are equal for every log
  (\<open>window_counts\<close>); the hourly entries count only the events whose date is valid. An
  event with the timestamp \<^verbatim>\<open>1e20\<close>, which \<^verbatim>\<open>normalizeEvent\<close> and \<^verbatim>\<open>validateEvent\<close> accept
  (\<open>normalize_far_future\<close> below), has an invalid date: it is counted in the total, in
  \<^verbatim>\<open>byEvent\<close> and in \<^verbatim>\<open>daily.hits\<close>, and in no hourly entry.
\<close>

theorem invalid_date_not_counted_by_hour:
  "total (snd (readWindowStats emptyGlobal 1800000000000
      [[logged ''test.ping'' (Some 100000000000000000000) goodAnon ''US'' None]])) = 1
   \<and> sum_list (map snd (byEvent (snd (readWindowStats emptyGlobal 1800000000000
      [[logged ''test.ping'' (Some 100000000000000000000) goodAnon ''US'' None]])))) = 1
   \<and> sum_list (daily_hits (snd (readWindowStats emptyGlobal 1800000000000
      [[logged ''test.ping'' (Some 100000000000000000000) goodAnon ''US'' None]]))) = 1
   \<and> sum_list (hourly (snd (readWindowStats emptyGlobal 1800000000000
      [[logged ''test.ping'' (Some 100000000000000000000) goodAnon ''US'' None]]))) = 0
   \<and> length (hourly (snd (readWindowStats emptyGlobal 1800000000000
      [[logged ''test.ping'' (Some 100000000000000000000) goodAnon ''US'' None]]))) = 24"
  by (simp add: eval_stats)

lemma normalize_far_future:
  "\<not> invalidEvent decimalNumber
      (JObj [(''anon'', JStr goodAnon), (''evt'', JStr ''test.ping''),
             (''t'', JNum (Fin 100000000000000000000))])"
  by (simp add: invalidEvent_def goodAnon_def normalizeEvent_def coerceT_def objGet_def
      objSet_def fillDefault_def isString_def anonOk_def anonRe_def evtOk_def EVENTS_def strLength_def Let_def
      validateEvent_def isNumber_def boundedStr_def)

lemma dbReadStatsTs_returns:
  "dbReadStatsTs True rows now wd = Stats (aggregate wd (trailingWindow now wd) rows)"
  by (simp add: dbReadStatsTs_def)

text \<open>
  Claim C6, as amended. The 8 bucket values of the histogram sum to the number of
  completed runs whose duration the path counts: in \<^verbatim>\<open>readWindowStats\<close> the completed
  runs of the log with a duration greater than 0, which is also \<^verbatim>\<open>durations.count\<close>; in
  \<^verbatim>\<open>dbReadStats\<close> of db.ts, which with a database returns, the completed runs of the
  trailing window whose duration is not null and not negative.
\<close>

theorem histogram_counts_positive_durations:
  "length (hist_values (snd (readWindowStats G now files))) = 8
   \<and> sum_list (hist_values (snd (readWindowStats G now files))) = countWhere hasPositiveDuration (concat files)
   \<and> durations_count (snd (readWindowStats G now files)) = countWhere hasPositiveDuration (concat files)
   \<and> (\<exists>data. dbReadStatsTs True rows now wd = Stats data
        \<and> length (db_hist_values data) = 8
        \<and> sum_list (db_hist_values data)
            = countWhere rowNonNegativeDuration (filter (inWindow (trailingWindow now wd)) rows))"
proof -
  have log: "length (hist_values (snd (readWindowStats G now files))) = 8
      \<and> sum_list (hist_values (snd (readWindowStats G now files))) = countWhere hasPositiveDuration (concat files)
      \<and> durations_count (snd (readWindowStats G now files)) = countWhere hasPositiveDuration (concat files)"
    by (rule hist_file)
  define data where "data = aggregate wd (trailingWindow now wd) rows"
  have ret: "dbReadStatsTs True rows now wd = Stats data"
    unfolding data_def by (rule dbReadStatsTs_returns)
  have tab: "length (db_hist_values data) = 8
      \<and> sum_list (db_hist_values data)
          = countWhere rowNonNegativeDuration (filter (inWindow (trailingWindow now wd)) rows)"
    unfolding data_def by (rule hist_db)
  from log ret tab show ?thesis by blast
qed

lemmas eval_db = dbReadStatsTs_def aggregate_def trailingWindow_def inWindow_def countWhere_def mkRow_def
  rowPhase_def rowDur_def coalesce_def durIn_def Let_def

lemma two_durations_db:
  "dbReadStatsTs True
     [(mkRow 1799999000000 goodAnon ''java.run.completed'')\<lparr>col_duration_ms := Some 1500\<rparr>,
      (mkRow 1799999000000 goodAnon ''java.run.completed'')\<lparr>col_duration_ms := Some (- 5)\<rparr>]
     1800000000000 7
   = Stats \<lparr>db_windowDays = 7, db_total = 2, db_uniques = 1, db_started = 0, db_completed = 2,
       db_compile = 0, db_runtime = 0, db_compileRate = 0, db_runtimeRate = 0,
       db_durations_count = 2, db_hist_values = [0, 0, 1, 0, 0, 0, 0, 0]\<rparr>"
  by (simp add: eval_db)

theorem histogram_counts_positive_durations_witness:
  "sum_list (hist_values (snd (readWindowStats emptyGlobal 1800000000000
      [[logged ''java.run.completed'' (Some 1700000000000) goodAnon ''US'' (Some 1500),
        logged ''java.run.completed'' (Some 1700000000000) goodAnon ''US'' (Some 0),
        logged ''java.run.completed'' (Some 1700000000000) goodAnon ''US'' None]]))) = 1
   \<and> durations_count (snd (readWindowStats emptyGlobal 1800000000000
      [[logged ''java.run.completed'' (Some 1700000000000) goodAnon ''US'' (Some 1500),
        logged ''java.run.completed'' (Some 1700000000000) goodAnon ''US'' (Some 0),
        logged ''java.run.completed'' (Some 1700000000000) goodAnon ''US'' None]])) = 1
   \<and> dbReadStatsTs True
        [(mkRow 1799999000000 goodAnon ''java.run.completed'')\<lparr>col_duration_ms := Some 1500\<rparr>,
         (mkRow 1799999000000 goodAnon ''java.run.completed'')\<lparr>col_duration_ms := Some (- 5)\<rparr>]
        1800000000000 7
      = Stats \<lparr>db_windowDays = 7, db_total = 2, db_uniques = 1, db_started = 0, db_completed = 2,
          db_compile = 0, db_runtime = 0, db_compileRate = 0, db_runtimeRate = 0,
          db_durations_count = 2, db_hist_values = [0, 0, 1, 0, 0, 0, 0, 0]\<rparr>
   \<and> countWhere rowNonNegativeDuration (filter (inWindow (trailingWindow 1800000000000 7))
        [(mkRow 1799999000000 goodAnon ''java.run.completed'')\<lparr>col_duration_ms := Some 1500\<rparr>,
         (mkRow 1799999000000 goodAnon ''java.run.completed'')\<lparr>col_duration_ms := Some (- 5)\<rparr>]) = 1"
  using histogram_counts_positive_durations[of emptyGlobal 1800000000000
      "[[logged ''java.run.completed'' (Some 1700000000000) goodAnon ''US'' (Some 1500),
        logged ''java.run.completed'' (Some 1700000000000) goodAnon ''US'' (Some 0),
        logged ''java.run.completed'' (Some 1700000000000) goodAnon ''US'' None]]"
      "[(mkRow 1799999000000 goodAnon ''java.run.completed'')\<lparr>col_duration_ms := Some 1500\<rparr>,
         (mkRow 1799999000000 goodAnon ''java.run.completed'')\<lparr>col_duration_ms := Some (- 5)\<rparr>]"
      7]
    two_durations_db
  by (simp add: countWhere_def hasPositiveDuration_def isCompleted_def logged_def)

text \<open>
  The claim C6 as stated fails: a completed run with the duration 0 has a duration that
  is not null and is in no bucket of \<^verbatim>\<open>readWindowStats\<close>; a completed run in the trailing
  window with the duration -5 has a duration that is not null, is counted in
  \<^verbatim>\<open>durations.count\<close> and is in no bucket of \<^verbatim>\<open>dbReadStats\<close> of db.ts.
\<close>

theorem histogram_misses_zero_and_negative_durations:
  "countWhere hasDuration
      [logged ''java.run.completed'' (Some 1700000000000) goodAnon ''US'' (Some 0)] = 1
   \<and> sum_list (hist_values (snd (readWindowStats emptyGlobal 1800000000000
      [[logged ''java.run.completed'' (Some 1700000000000) goodAnon ''US'' (Some 0)]]))) = 0
   \<and> inWindow (trailingWindow 1800000000000 7)
        ((mkRow 1799999000000 goodAnon ''java.run.completed'')\<lparr>col_duration_ms := Some (- 5)\<rparr>)
   \<and> countWhere rowHasDuration
        [(mkRow 1799999000000 goodAnon ''java.run.completed'')\<lparr>col_duration_ms := Some (- 5)\<rparr>] = 1
   \<and> dbReadStatsTs True
        [(mkRow 1799999000000 goodAnon ''java.run.completed'')\<lparr>col_duration_ms := Some (- 5)\<rparr>]
        1800000000000 7
      = Stats \<lparr>db_windowDays = 7, db_total = 1, db_uniques = 1, db_started = 0, db_completed = 1,
          db_compile = 0, db_runtime = 0, db_compileRate = 0, db_runtimeRate = 0,
          db_durations_count = 1, db_hist_values = [0, 0, 0, 0, 0, 0, 0, 0]\<rparr>"
  by (simp add: hist_file eval_db hasDuration_def hasPositiveDuration_def isCompleted_def
      logged_def rowHasDuration_def)

text \<open>
  Claim C7, as amended. \<^verbatim>\<open>readWindowStats\<close> returns the rates
  \<open>errors / max 1 started\<close>, where the counts are those of the compile errors, runtime
  errors and started runs of the log. \<^verbatim>\<open>dbReadStats\<close> of db.ts, which with a database
  returns, gives 0 for both rates when no run was started in its window and
  \<open>errors / max 1 started\<close> otherwise, the counts being those of the rows of the window.
\<close>

theorem error_rates:
  "compileRate (snd (readWindowStats G now files))
     = of_nat (countWhere isCompileError (concat files)) / of_nat (max 1 (countWhere isStarted (concat files)))
   \<and> runtimeRate (snd (readWindowStats G now files))
     = of_nat (countWhere isRuntimeError (concat files)) / of_nat (max 1 (countWhere isStarted (concat files)))
   \<and> errors_compile (snd (readWindowStats G now files)) = countWhere isCompileError (concat files)
   \<and> errors_runtime (snd (readWindowStats G now files)) = countWhere isRuntimeError (concat files)
   \<and> runs_started (snd (readWindowStats G now files)) = countWhere isStarted (concat files)
   \<and> (\<exists>data. dbReadStatsTs True rows now wd = Stats data
        \<and> db_compileRate data
            = (if db_started data = 0 then 0
               else of_nat (db_compile data) / of_nat (max 1 (db_started data)))
        \<and> db_runtimeRate data
            = (if db_started data = 0 then 0
               else of_nat (db_runtime data) / of_nat (max 1 (db_started data)))
        \<and> db_started data = countWhere rowStarted (filter (inWindow (trailingWindow now wd)) rows)
        \<and> db_compile data = countWhere rowCompileError (filter (inWindow (trailingWindow now wd)) rows)
        \<and> db_runtime data = countWhere rowRuntimeError (filter (inWindow (trailingWindow now wd)) rows))"
proof -
  have m: "0 < n \<Longrightarrow> max 1 n = n" for n :: nat by simp
  have log: "compileRate (snd (readWindowStats G now files))
       = of_nat (countWhere isCompileError (concat files)) / of_nat (max 1 (countWhere isStarted (concat files)))
     \<and> runtimeRate (snd (readWindowStats G now files))
       = of_nat (countWhere isRuntimeError (concat files)) / of_nat (max 1 (countWhere isStarted (concat files)))
     \<and> errors_compile (snd (readWindowStats G now files)) = countWhere isCompileError (concat files)
     \<and> errors_runtime (snd (readWindowStats G now files)) = countWhere isRuntimeError (concat files)
     \<and> runs_started (snd (readWindowStats G now files)) = countWhere isStarted (concat files)"
    by (simp add: readWindowStats_fields scan_started scan_compileErr scan_runtimeErr)
  define data where "data = aggregate wd (trailingWindow now wd) rows"
  have ret: "dbReadStatsTs True rows now wd = Stats data"
    unfolding data_def by (rule dbReadStatsTs_returns)
  have tab: "db_compileRate data
        = (if db_started data = 0 then 0
           else of_nat (db_compile data) / of_nat (max 1 (db_started data)))
     \<and> db_runtimeRate data
        = (if db_started data = 0 then 0
           else of_nat (db_runtime data) / of_nat (max 1 (db_started data)))
     \<and> db_started data = countWhere rowStarted (filter (inWindow (trailingWindow now wd)) rows)
     \<and> db_compile data = countWhere rowCompileError (filter (inWindow (trailingWindow now wd)) rows)
     \<and> db_runtime data = countWhere rowRuntimeError (filter (inWindow (trailingWindow now wd)) rows)"
    unfolding data_def by (simp add: aggregate_rates aggregate_fields(2,3,4) m)
  from log ret tab show ?thesis by blast
qed

lemma two_started_db:
  "dbReadStatsTs True
     [mkRow 1799999000000 goodAnon ''java.run.started'', mkRow 1799999000001 goodAnon ''java.run.started'',
      (mkRow 1799999000002 goodAnon ''java.run.error'')\<lparr>col_error_phase := Some ''compile''\<rparr>]
     1800000000000 7
   = Stats \<lparr>db_windowDays = 7, db_total = 3, db_uniques = 1, db_started = 2, db_completed = 0,
       db_compile = 1, db_runtime = 0, db_compileRate = 1 / 2, db_runtimeRate = 0,
       db_durations_count = 0, db_hist_values = [0, 0, 0, 0, 0, 0, 0, 0]\<rparr>"
  by (simp add: eval_db)

theorem error_rates_witness:
  "compileRate (snd (readWindowStats emptyGlobal 1800000000000
      [[(logged ''java.run.error'' (Some 1700000000000) goodAnon ''US'' None)\<lparr>ev_phase := ''compile''\<rparr>]])) = 1
   \<and> runtimeRate (snd (readWindowStats emptyGlobal 1800000000000
      [[(logged ''java.run.error'' (Some 1700000000000) goodAnon ''US'' None)\<lparr>ev_phase := ''compile''\<rparr>]])) = 0
   \<and> dbReadStatsTs True
        [mkRow 1799999000000 goodAnon ''java.run.started'', mkRow 1799999000001 goodAnon ''java.run.started'',
         (mkRow 1799999000002 goodAnon ''java.run.error'')\<lparr>col_error_phase := Some ''compile''\<rparr>]
        1800000000000 7
      = Stats \<lparr>db_windowDays = 7, db_total = 3, db_uniques = 1, db_started = 2, db_completed = 0,
          db_compile = 1, db_runtime = 0, db_compileRate = 1 / 2, db_runtimeRate = 0,
          db_durations_count = 0, db_hist_values = [0, 0, 0, 0, 0, 0, 0, 0]\<rparr>"
  using error_rates[of emptyGlobal 1800000000000
      "[[(logged ''java.run.error'' (Some 1700000000000) goodAnon ''US'' None)\<lparr>ev_phase := ''compile''\<rparr>]]"
      "[mkRow 1799999000000 goodAnon ''java.run.started'', mkRow 1799999000001 goodAnon ''java.run.started'',
         (mkRow 1799999000002 goodAnon ''java.run.error'')\<lparr>col_error_phase := Some ''compile''\<rparr>]"
      7]
    two_started_db
  by (simp add: countWhere_def isCompileError_def isRuntimeError_def isStarted_def logged_def)

text \<open>
  The claim C7 as stated fails for \<^verbatim>\<open>dbReadStats\<close> of db.ts: with one compile error and no
  started run in the trailing window the result has 1 compile error, 0 started runs and
  the compile-error rate 0, where \<open>errors / max 1 started\<close> is 1.
\<close>

theorem db_rate_zero_without_started:
  "inWindow (trailingWindow 1800000000000 7)
        ((mkRow 1799999000000 goodAnon ''java.run.error'')\<lparr>col_error_phase := Some ''compile''\<rparr>)
   \<and> dbReadStatsTs True
        [(mkRow 1799999000000 goodAnon ''java.run.error'')\<lparr>col_error_phase := Some ''compile''\<rparr>]
        1800000000000 7
      = Stats \<lparr>db_windowDays = 7, db_total = 1, db_uniques = 1, db_started = 0, db_completed = 0,
          db_compile = 1, db_runtime = 0, db_compileRate = 0, db_runtimeRate = 0,
          db_durations_count = 0, db_hist_values = [0, 0, 0, 0, 0, 0, 0, 0]\<rparr>
   \<and> spec_rate 1 0 = 1"
  by (simp add: eval_db spec_rate_def)

lemma resolveWindow_default:
  "fromS = None \<or> toS = None \<Longrightarrow> resolveWindow parse now fromS toS = (0, now)"
  by (auto simp: resolveWindow_def split: option.splits)

lemma resolveWindow_range:
  assumes "f \<noteq> []" "t \<noteq> []" "parse (f @ ''T00:00:00Z'') = Some ft" "parse (t @ ''T23:59:59Z'') = Some tt" "ft \<le> tt"
  shows "resolveWindow parse now (Some f) (Some t) = (ft, tt)"
  using assms by (simp add: resolveWindow_def)

lemma parse_examples:
  "parseIsoUtc ''2024-01-01T00:00:00Z'' = Some 1704067200000"
  "parseIsoUtc ''2024-01-01T23:59:59Z'' = Some 1704153599000"
  "parseIsoUtc ''2024-01-02T00:00:00Z'' = Some 1704153600000"
  by (simp_all add: parseIsoUtc_def isDigit_def digitsVal_def digitVal_def daysInMonth_def daysFromCivil_def)

lemma dbReadStats_throws: "dbReadStats True parse postgres rows now wd fromS toS = Throws"
  by (simp add: dbReadStats_def postgres_def)

text \<open>
  Claim C2 asks that without \<^verbatim>\<open>from\<close> and \<^verbatim>\<open>to\<close> every stored event is aggregated, and that
  a valid pair of dates is an inclusive range of days. For a table of one row stamped
  2024-01-01 12:00:00 and a call in 2027: \<^verbatim>\<open>dbReadStats\<close> of db.js throws on PostgreSQL at
  the query of the recent sessions, with or without dates, and the route answers the
  zero-valued result, total 0; \<^verbatim>\<open>dbReadStats\<close> of db.ts takes no dates and aggregates the
  trailing window only, total 0. The window that db.js computes and passes to its
  queries is \<open>[from 00:00:00, to 23:59:59)\<close> for a valid pair and \<open>[epoch, now)\<close> otherwise:
  it leaves out the last second of the day \<^verbatim>\<open>to\<close>.
\<close>

theorem stored_event_not_aggregated:
  "dbReadStats True parseIsoUtc postgres [mkRow 1704110400000 goodAnon ''test.ping''] 1800000000000 7 None None
       = Throws
   \<and> dbReadStats True parseIsoUtc postgres [mkRow 1704110400000 goodAnon ''test.ping''] 1800000000000 7
        (Some ''2024-01-01'') (Some ''2024-01-01'') = Throws
   \<and> statsRoute True parseIsoUtc postgres [mkRow 1704110400000 goodAnon ''test.ping''] 1800000000000 7 None None
       = Body (fallback 7)
   \<and> statsRoute True parseIsoUtc postgres [mkRow 1704110400000 goodAnon ''test.ping''] 1800000000000 7
        (Some ''2024-01-01'') (Some ''2024-01-01'') = Body (fallback 7)
   \<and> db_total (fallback 7) = 0
   \<and> dbReadStatsTs True [mkRow 1704110400000 goodAnon ''test.ping''] 1800000000000 7
       = Stats \<lparr>db_windowDays = 7, db_total = 0, db_uniques = 0, db_started = 0, db_completed = 0,
           db_compile = 0, db_runtime = 0, db_compileRate = 0, db_runtimeRate = 0,
           db_durations_count = 0, db_hist_values = [0, 0, 0, 0, 0, 0, 0, 0]\<rparr>
   \<and> trailingWindow 1800000000000 7 = (1799481600000, 1800000000000)
   \<and> resolveWindow parseIsoUtc 1800000000000 None None = (0, 1800000000000)
   \<and> resolveWindow parseIsoUtc 1800000000000 (Some ''2024-01-01'') (Some ''2024-01-01'')
       = (1704067200000, 1704153599000)
   \<and> parseIsoUtc ''2024-01-02T00:00:00Z'' = Some 1704153600000
   \<and> \<not> inWindow (resolveWindow parseIsoUtc 1800000000000 (Some ''2024-01-01'') (Some ''2024-01-01''))
         (mkRow 1704153599500 goodAnon ''test.ping'')"
  by (simp add: dbReadStats_throws statsRoute_def fallback_def eval_db resolveWindow_def parse_examples)

end
